theory Spec2Isabelle
  imports Complex_Main "HOL-Library.Char_ord" "HOL-Library.List_Lexorder"
    "HOL-Library.Product_Lexorder"
begin

section \<open>Floating-point values\<close>

text \<open>
  The columns that \<^verbatim>\<open>pudl/analysis.py\<close> computes with are numpy float64 columns.
  A value is a number, an infinity or the missing-value marker NaN.  Numbers are
  exact reals here: rounding is not modelled (the properties below are the ones that
  hold "within floating-point tolerance"), and neither is the sign of zero, so a
  division of a non-zero number by zero has the sign of the numerator.
\<close>

datatype fl = Fin real | PInf | NInf | NaN

fun fl_add :: "fl \<Rightarrow> fl \<Rightarrow> fl" where
  "fl_add (Fin a) (Fin b) = Fin (a + b)"
| "fl_add NaN _ = NaN"
| "fl_add _ NaN = NaN"
| "fl_add PInf NInf = NaN"
| "fl_add NInf PInf = NaN"
| "fl_add PInf _ = PInf"
| "fl_add _ PInf = PInf"
| "fl_add NInf _ = NInf"
| "fl_add _ NInf = NInf"

fun fl_neg :: "fl \<Rightarrow> fl" where
  "fl_neg (Fin a) = Fin (- a)"
| "fl_neg PInf = NInf"
| "fl_neg NInf = PInf"
| "fl_neg NaN = NaN"

definition fl_sub :: "fl \<Rightarrow> fl \<Rightarrow> fl" where
  "fl_sub x y = fl_add x (fl_neg y)"

text \<open>The sign of a value that is not NaN: \<open>-1\<close>, \<open>0\<close> or \<open>1\<close>.\<close>

fun fl_sign :: "fl \<Rightarrow> int" where
  "fl_sign (Fin a) = (if a < 0 then - 1 else if a = 0 then 0 else 1)"
| "fl_sign PInf = 1"
| "fl_sign NInf = - 1"
| "fl_sign NaN = 0"

fun fl_mul :: "fl \<Rightarrow> fl \<Rightarrow> fl" where
  "fl_mul (Fin a) (Fin b) = Fin (a * b)"
| "fl_mul NaN _ = NaN"
| "fl_mul _ NaN = NaN"
| "fl_mul x y =
     (if fl_sign x * fl_sign y = 0 then NaN
      else if fl_sign x * fl_sign y > 0 then PInf else NInf)"

fun fl_div :: "fl \<Rightarrow> fl \<Rightarrow> fl" where
  "fl_div (Fin a) (Fin b) =
     (if b \<noteq> 0 then Fin (a / b)
      else if a = 0 then NaN else if a > 0 then PInf else NInf)"
| "fl_div NaN _ = NaN"
| "fl_div _ NaN = NaN"
| "fl_div (Fin a) PInf = Fin 0"
| "fl_div (Fin a) NInf = Fin 0"
| "fl_div PInf (Fin b) = (if b < 0 then NInf else PInf)"
| "fl_div NInf (Fin b) = (if b < 0 then PInf else NInf)"
| "fl_div _ _ = NaN"

fun fl_sqrt :: "fl \<Rightarrow> fl" where
  "fl_sqrt (Fin a) = (if a < 0 then NaN else Fin (sqrt a))"
| "fl_sqrt PInf = PInf"
| "fl_sqrt NInf = NaN"
| "fl_sqrt NaN = NaN"

text \<open>Comparisons: every comparison with NaN is false, except \<^verbatim>\<open>!=\<close>, which is true.\<close>

fun fl_lt :: "fl \<Rightarrow> fl \<Rightarrow> bool" where
  "fl_lt (Fin a) (Fin b) = (a < b)"
| "fl_lt NaN _ = False"
| "fl_lt _ NaN = False"
| "fl_lt PInf _ = False"
| "fl_lt _ PInf = True"
| "fl_lt NInf NInf = False"
| "fl_lt NInf _ = True"
| "fl_lt _ NInf = False"

fun fl_eq :: "fl \<Rightarrow> fl \<Rightarrow> bool" where
  "fl_eq NaN _ = False"
| "fl_eq _ NaN = False"
| "fl_eq x y = (x = y)"

definition fl_le :: "fl \<Rightarrow> fl \<Rightarrow> bool" where
  "fl_le x y = (fl_lt x y \<or> fl_eq x y)"

definition fl_gt :: "fl \<Rightarrow> fl \<Rightarrow> bool" where
  "fl_gt x y = fl_lt y x"

definition fl_ge :: "fl \<Rightarrow> fl \<Rightarrow> bool" where
  "fl_ge x y = fl_le y x"

definition fl_ne :: "fl \<Rightarrow> fl \<Rightarrow> bool" where
  "fl_ne x y = (\<not> fl_eq x y)"

text \<open>A plain sum (NaN propagates), and the pandas sum, which skips NaN and is 0 on
  nothing.\<close>

fun fl_sum :: "fl list \<Rightarrow> fl" where
  "fl_sum [] = Fin 0"
| "fl_sum (x # xs) = fl_add x (fl_sum xs)"

definition sum_skipna :: "fl list \<Rightarrow> fl" where
  "sum_skipna xs = fl_sum (filter (\<lambda>x. x \<noteq> NaN) xs)"

section \<open>numpy's correlation coefficient\<close>

text \<open>
  \<^verbatim>\<open>np.corrcoef(x, y)[0, 1]\<close>, following numpy's own steps: \<^verbatim>\<open>cov\<close> subtracts
  the average of each variable, takes the dot products and multiplies them by
  \<^verbatim>\<open>1 / fact\<close>, where \<^verbatim>\<open>fact\<close> is the number of observations less one, set to 0.0
  when that is not positive; \<^verbatim>\<open>corrcoef\<close> divides the covariance by the two standard
  deviations and clips the result to \<open>[-1, 1]\<close>.
\<close>

definition np_average :: "fl list \<Rightarrow> fl" where
  "np_average xs = fl_div (fl_sum xs) (Fin (real (length xs)))"

definition np_dot :: "fl list \<Rightarrow> fl list \<Rightarrow> fl" where
  "np_dot xs ys = fl_sum (map2 fl_mul xs ys)"

definition np_cov :: "fl list \<Rightarrow> fl list \<Rightarrow> fl" where
  "np_cov xs ys =
     (let fact = (if length xs \<le> 1 then 0 else real (length xs) - 1);
          dx = map (\<lambda>x. fl_sub x (np_average xs)) xs;
          dy = map (\<lambda>y. fl_sub y (np_average ys)) ys
      in fl_mul (np_dot dx dy) (fl_div (Fin 1) (Fin fact)))"

definition np_clip :: "fl \<Rightarrow> fl" where
  "np_clip c = (if fl_lt c (Fin (- 1)) then Fin (- 1) else if fl_gt c (Fin 1) then Fin 1 else c)"

definition corrcoef :: "fl list \<Rightarrow> fl list \<Rightarrow> fl" where
  "corrcoef xs ys =
     np_clip (fl_div (fl_div (np_cov xs ys) (fl_sqrt (np_cov xs xs))) (fl_sqrt (np_cov ys ys)))"

section \<open>Production-cost classification: \<^verbatim>\<open>ferc1_expns_corr\<close>, \<^verbatim>\<open>consolidate_ferc1_expns\<close>\<close>

text \<open>
  A row of the steam table: the two columns the capacity factor is computed from, and
  the expense columns, looked up by name.
\<close>

record steam_row =
  net_generation_mwh :: fl
  total_capacity_mw :: fl
  expns :: "string \<Rightarrow> fl"

record steam_out = steam_row +
  expns_total_nonfuel_production :: fl
  expns_total_nonproduction :: fl

text \<open>
  The exceptions of the source are values.  \<open>Unmodelled\<close> is not an exception of the
  program: it marks an input on which the functions below do not follow pandas (such as
  a cell of a kind the column is not documented to hold), so that no theorem speaks
  about it.
\<close>

datatype error = KeyError | AssertionError | ValueError | TypeError | Unmodelled

definition cols_to_correlate :: "string list" where
  "cols_to_correlate =
     [''expns_operations'', ''expns_fuel'', ''expns_coolants'', ''expns_steam'',
      ''expns_steam_other'', ''expns_transfer'', ''expns_electric'', ''expns_misc_power'',
      ''expns_rents'', ''expns_allowances'', ''expns_engineering'', ''expns_structures'',
      ''expns_boiler'', ''expns_plants'', ''expns_misc_steam'']"

text \<open>The column \<^verbatim>\<open>capacity_factor\<close> as \<^verbatim>\<open>ferc1_expns_corr\<close> computes it (line 329):
  \<^verbatim>\<open>net_generation_mwh / 8760 * total_capacity_mw\<close>.\<close>

definition expns_capacity_factor :: "steam_row \<Rightarrow> fl" where
  "expns_capacity_factor r =
     fl_mul (fl_div (net_generation_mwh r) (Fin 8760)) (total_capacity_mw r)"

text \<open>Line 332: the rows whose capacity factor is greater than \<^verbatim>\<open>min_capfac\<close>.\<close>

definition limit_by_capfac :: "fl \<Rightarrow> steam_row list \<Rightarrow> steam_row list" where
  "limit_by_capfac min_capfac steam_df =
     filter (\<lambda>r. fl_gt (expns_capacity_factor r) min_capfac) steam_df"

text \<open>One pass of the loop of lines 352-355, for the expense column \<open>e\<close>.\<close>

definition expns_corr_of :: "steam_row list \<Rightarrow> string \<Rightarrow> fl" where
  "expns_corr_of df e =
     (let mwh_plants = map net_generation_mwh (filter (\<lambda>r. fl_ne (expns r e) (Fin 0)) df);
          expns_plants = map (\<lambda>r. expns r e) (filter (\<lambda>r. fl_ne (expns r e) (Fin 0)) df)
      in corrcoef mwh_plants expns_plants)"

text \<open>The dictionary that is returned, in the order the keys were inserted.\<close>

definition ferc1_expns_corr :: "steam_row list \<Rightarrow> fl \<Rightarrow> (string \<times> fl) list" where
  "ferc1_expns_corr steam_df min_capfac =
     map (\<lambda>e. (e, expns_corr_of (limit_by_capfac min_capfac steam_df) e)) cols_to_correlate"

text \<open>\<^verbatim>\<open>dict.pop(key)\<close>: a missing key raises KeyError.\<close>

definition dict_pop :: "string \<Rightarrow> (string \<times> fl) list \<Rightarrow> error + (string \<times> fl) list" where
  "dict_pop k d =
     (if k \<in> fst ` set d then Inr (filter (\<lambda>kv. fst kv \<noteq> k) d) else Inl KeyError)"

text \<open>\<^verbatim>\<open>steam_df[cols].sum(axis=1)\<close>, for one row.\<close>

definition sum_axis1 :: "string list \<Rightarrow> steam_row \<Rightarrow> fl" where
  "sum_axis1 cols r = sum_skipna (map (expns r) cols)"

text \<open>Lines 291 and 292: the two buckets.\<close>

definition nonfuel_px :: "(string \<times> fl) list \<Rightarrow> fl \<Rightarrow> string list" where
  "nonfuel_px expns_corr min_corr = map fst (filter (\<lambda>kv. fl_ge (snd kv) min_corr) expns_corr)"

definition npx :: "(string \<times> fl) list \<Rightarrow> fl \<Rightarrow> string list" where
  "npx expns_corr min_corr = map fst (filter (\<lambda>kv. fl_lt (snd kv) min_corr) expns_corr)"

definition add_totals :: "string list \<Rightarrow> string list \<Rightarrow> steam_row \<Rightarrow> steam_out" where
  "add_totals px np r =
     \<lparr>net_generation_mwh = net_generation_mwh r, total_capacity_mw = total_capacity_mw r,
      expns = expns r,
      expns_total_nonfuel_production = sum_axis1 px r,
      expns_total_nonproduction = sum_axis1 np r\<rparr>"

definition consolidate_ferc1_expns :: "steam_row list \<Rightarrow> fl \<Rightarrow> fl \<Rightarrow> error + steam_out list" where
  "consolidate_ferc1_expns steam_df min_capfac min_corr =
     (case dict_pop ''expns_fuel'' (ferc1_expns_corr steam_df min_capfac) of
        Inl e \<Rightarrow> Inl e
      | Inr expns_corr \<Rightarrow>
          Inr (map (add_totals (nonfuel_px expns_corr min_corr) (npx expns_corr min_corr)) steam_df))"

section \<open>Data frames\<close>

text \<open>
  A cell of a frame is an integer, a float, a string, a date (year, month, day) or
  missing (None, NaT).  A frame is the list of its column names and its rows; a row
  gives the cell of each column by name.  What a row says for a name that is not a
  column of the frame is of no consequence.  The order in which pandas returns the
  groups of a \<^verbatim>\<open>groupby\<close> or the rows of a pivot (sorted by key) is not modelled: groups
  come in the order of their first row.
\<close>

datatype cell = CInt int | CFlt fl | CStr string | CDate int nat nat | CNull

type_synonym row = "string \<Rightarrow> cell"

record frame =
  columns :: "string list"
  rows :: "row list"

definition null_row :: row where
  "null_row = (\<lambda>_. CNull)"

text \<open>\<^verbatim>\<open>df[c] = values\<close>: a new column goes last, an old one is overwritten in place.\<close>

definition assign_column :: "string \<Rightarrow> (row \<Rightarrow> cell) \<Rightarrow> frame \<Rightarrow> frame" where
  "assign_column c f df =
     \<lparr>columns = (if c \<in> set (columns df) then columns df else columns df @ [c]),
      rows = map (\<lambda>r. r(c := f r)) (rows df)\<rparr>"

text \<open>\<^verbatim>\<open>df.drop(cs, axis=1)\<close> and \<^verbatim>\<open>df[cs]\<close>: a missing label raises.\<close>

definition drop_columns :: "string list \<Rightarrow> frame \<Rightarrow> error + frame" where
  "drop_columns cs df =
     (if list_all (\<lambda>c. c \<in> set (columns df)) cs
      then Inr \<lparr>columns = filter (\<lambda>c. c \<notin> set cs) (columns df), rows = rows df\<rparr>
      else Inl KeyError)"

definition select_columns :: "string list \<Rightarrow> frame \<Rightarrow> error + frame" where
  "select_columns cs df =
     (if list_all (\<lambda>c. c \<in> set (columns df)) cs
      then Inr \<lparr>columns = cs, rows = rows df\<rparr>
      else Inl KeyError)"


text \<open>\<^verbatim>\<open>pd.to_datetime(col).dt.year\<close> on a column of dates; the year of NaT is missing.\<close>

fun is_datelike :: "cell \<Rightarrow> bool" where
  "is_datelike (CDate y m d) = True"
| "is_datelike CNull = True"
| "is_datelike _ = False"

fun year_of :: "cell \<Rightarrow> cell" where
  "year_of (CDate y m d) = CInt y"
| "year_of _ = CNull"

text \<open>Numeric cells as floats.\<close>

fun is_numeric :: "cell \<Rightarrow> bool" where
  "is_numeric (CInt n) = True"
| "is_numeric (CFlt x) = True"
| "is_numeric CNull = True"
| "is_numeric _ = False"

fun cell_fl :: "cell \<Rightarrow> fl" where
  "cell_fl (CInt n) = Fin (real_of_int n)"
| "cell_fl (CFlt x) = x"
| "cell_fl _ = NaN"

fun is_null :: "cell \<Rightarrow> bool" where
  "is_null CNull = True"
| "is_null (CFlt NaN) = True"
| "is_null _ = False"

subsection \<open>\<^verbatim>\<open>pd.merge\<close>\<close>

text \<open>
  Library code, modelled from pandas: the keys must be columns of both frames; a
  column that both frames have and that is not a key gets the suffix \<^verbatim>\<open>_x\<close> on the
  left and \<^verbatim>\<open>_y\<close> on the right; the rows are given by the join indexers (a position
  in the left frame and one in the right frame, either of which is absent for a row
  that only an outer join keeps).  Keys match when they are equal cell by cell.  The
  row order of a right and of an outer join is not the one of pandas.
\<close>

datatype how = Inner | Left | Right | Outer

definition keys_match :: "string list \<Rightarrow> row \<Rightarrow> row \<Rightarrow> bool" where
  "keys_match on l r = (map l on = map r on)"

definition right_matches :: "string list \<Rightarrow> row \<Rightarrow> row list \<Rightarrow> nat list" where
  "right_matches on l rs = filter (\<lambda>j. keys_match on l (rs ! j)) [0..<length rs]"

definition left_matches :: "string list \<Rightarrow> row list \<Rightarrow> row \<Rightarrow> nat list" where
  "left_matches on ls r = filter (\<lambda>i. keys_match on (ls ! i) r) [0..<length ls]"

definition inner_indexers :: "string list \<Rightarrow> row list \<Rightarrow> row list \<Rightarrow> (nat option \<times> nat option) list" where
  "inner_indexers on ls rs =
     concat (map (\<lambda>i. map (\<lambda>j. (Some i, Some j)) (right_matches on (ls ! i) rs)) [0..<length ls])"

definition left_indexers :: "string list \<Rightarrow> row list \<Rightarrow> row list \<Rightarrow> (nat option \<times> nat option) list" where
  "left_indexers on ls rs =
     concat (map (\<lambda>i. if right_matches on (ls ! i) rs = [] then [(Some i, None)]
                      else map (\<lambda>j. (Some i, Some j)) (right_matches on (ls ! i) rs)) [0..<length ls])"

definition right_only :: "string list \<Rightarrow> row list \<Rightarrow> row list \<Rightarrow> (nat option \<times> nat option) list" where
  "right_only on ls rs =
     map (\<lambda>j. (None, Some j)) (filter (\<lambda>j. left_matches on ls (rs ! j) = []) [0..<length rs])"

definition right_indexers :: "string list \<Rightarrow> row list \<Rightarrow> row list \<Rightarrow> (nat option \<times> nat option) list" where
  "right_indexers on ls rs =
     concat (map (\<lambda>j. if left_matches on ls (rs ! j) = [] then [(None, Some j)]
                      else map (\<lambda>i. (Some i, Some j)) (left_matches on ls (rs ! j))) [0..<length rs])"

fun join_indexers :: "how \<Rightarrow> string list \<Rightarrow> row list \<Rightarrow> row list \<Rightarrow> (nat option \<times> nat option) list" where
  "join_indexers Inner on ls rs = inner_indexers on ls rs"
| "join_indexers Left on ls rs = left_indexers on ls rs"
| "join_indexers Right on ls rs = right_indexers on ls rs"
| "join_indexers Outer on ls rs = left_indexers on ls rs @ right_only on ls rs"

text \<open>Copying the columns \<open>cs\<close> of the row \<open>src\<close> into \<open>acc\<close>, under their new names.\<close>

definition put_cols :: "(string \<Rightarrow> string) \<Rightarrow> string list \<Rightarrow> row \<Rightarrow> row \<Rightarrow> row" where
  "put_cols rename cs src acc = foldl (\<lambda>a c. a(rename c := src c)) acc cs"

definition overlap :: "string list \<Rightarrow> frame \<Rightarrow> frame \<Rightarrow> string list" where
  "overlap on left right =
     filter (\<lambda>c. c \<in> set (columns right) \<and> c \<notin> set on) (columns left)"

definition suffixed :: "string list \<Rightarrow> string \<Rightarrow> string \<Rightarrow> string" where
  "suffixed ov sfx c = (if c \<in> set ov then c @ sfx else c)"

definition merged_columns :: "string list \<Rightarrow> frame \<Rightarrow> frame \<Rightarrow> string list" where
  "merged_columns on left right =
     map (suffixed (overlap on left right) ''_x'') (columns left) @
     map (suffixed (overlap on left right) ''_y'') (filter (\<lambda>c. c \<notin> set on) (columns right))"

text \<open>The row of the result for one pair of the indexers.  A row of the right frame
  that has no partner keeps its keys.\<close>

definition merged_row :: "string list \<Rightarrow> frame \<Rightarrow> frame \<Rightarrow> nat option \<times> nat option \<Rightarrow> row" where
  "merged_row on left right ij =
     (let r = (case snd ij of Some j \<Rightarrow> rows right ! j | None \<Rightarrow> null_row);
          l = (case fst ij of Some i \<Rightarrow> rows left ! i
                | None \<Rightarrow> (\<lambda>c. if c \<in> set on then r c else CNull))
      in put_cols (suffixed (overlap on left right) ''_y'')
           (filter (\<lambda>c. c \<notin> set on) (columns right)) r
           (put_cols (suffixed (overlap on left right) ''_x'') (columns left) l null_row))"

definition pd_merge :: "how \<Rightarrow> string list \<Rightarrow> frame \<Rightarrow> frame \<Rightarrow> error + frame" where
  "pd_merge hw on left right =
     (if \<not> list_all (\<lambda>k. k \<in> set (columns left) \<and> k \<in> set (columns right)) on then Inl KeyError
      else if \<not> distinct on \<or> on = [] then Inl Unmodelled
      else Inr \<lparr>columns = merged_columns on left right,
                rows = map (merged_row on left right)
                         (join_indexers hw on (rows left) (rows right))\<rparr>)"

section \<open>Temporal alignment: \<^verbatim>\<open>merge_on_date_year\<close>\<close>

text \<open>
  \<^verbatim>\<open>pd.infer_freq(pd.DatetimeIndex(col.unique()).sort_values()) == 'AS-JAN'\<close>.
  Modelled from pandas, which is not part of the repository: \<^verbatim>\<open>infer_freq\<close> raises
  ValueError on fewer than three dates, and its answer is \<^verbatim>\<open>AS-JAN\<close> when the dates
  are the first of January of consecutive years.
\<close>

fun consecutive :: "int list \<Rightarrow> bool" where
  "consecutive (x # y # ys) = (y = x + 1 \<and> consecutive (y # ys))"
| "consecutive _ = True"

fun is_jan_first :: "cell \<Rightarrow> bool" where
  "is_jan_first (CDate y m d) = (m = 1 \<and> d = 1)"
| "is_jan_first _ = False"

fun cell_years :: "cell list \<Rightarrow> int list" where
  "cell_years [] = []"
| "cell_years (CDate y m d # cs) = y # cell_years cs"
| "cell_years (_ # cs) = cell_years cs"

definition infer_freq_is_AS_JAN :: "cell list \<Rightarrow> error + bool" where
  "infer_freq_is_AS_JAN vals =
     (if length (remdups vals) < 3 then Inl ValueError
      else Inr (list_all is_jan_first (remdups vals) \<and> consecutive (sort (cell_years (remdups vals)))))"

text \<open>
  The function returns the merged frame or raises; its two arguments are mutable
  objects of the caller, so the result comes with the state in which the call leaves
  each of them: \<open>(result, df_date, df_year)\<close>.  The two arguments are taken to be
  distinct objects, and the two date columns to hold dates.
\<close>

definition merge_on_date_year ::
  "frame \<Rightarrow> frame \<Rightarrow> string list \<Rightarrow> how \<Rightarrow> string \<Rightarrow> string \<Rightarrow> (error + frame) \<times> frame \<times> frame" where
  "merge_on_date_year df_date df_year on hw date_col year_col =
     (if date_col \<notin> set (columns df_date) then (Inl AssertionError, df_date, df_year)
      else if year_col \<notin> set (columns df_year) then (Inl AssertionError, df_date, df_year)
      else if \<not> list_all (\<lambda>r. is_datelike (r year_col)) (rows df_year)
              \<or> \<not> list_all (\<lambda>r. is_datelike (r date_col)) (rows df_date)
        then (Inl Unmodelled, df_date, df_year)
      else case infer_freq_is_AS_JAN (map (\<lambda>r. r year_col) (rows df_year)) of
        Inl e \<Rightarrow> (Inl e, df_date, df_year)
      | Inr False \<Rightarrow> (Inl AssertionError, df_date, df_year)
      | Inr True \<Rightarrow>
         (let df_year1 = assign_column ''year_temp'' (\<lambda>r. year_of (r year_col)) df_year
          in case drop_columns [year_col] df_year1 of
            Inl e \<Rightarrow> (Inl e, df_date, df_year1)
          | Inr df_year2 \<Rightarrow>
             (let df_date1 = assign_column ''year_temp'' (\<lambda>r. year_of (r date_col)) df_date;
                  full_on = on @ [''year_temp''];
                  unshared_cols = filter (\<lambda>col. col \<notin> set (columns df_date1)) (columns df_year2);
                  cols_to_use = unshared_cols @ full_on
              in case select_columns cols_to_use df_year2 of
                Inl e \<Rightarrow> (Inl e, df_date1, df_year1)
              | Inr right \<Rightarrow>
                 (case pd_merge hw full_on df_date1 right of
                    Inl e \<Rightarrow> (Inl e, df_date1, df_year1)
                  | Inr merged \<Rightarrow>
                     (case drop_columns [''year_temp''] merged of
                        Inl e \<Rightarrow> (Inl e, df_date1, df_year1)
                      | Inr m \<Rightarrow> (Inr m, df_date1, df_year1))))))"

section \<open>Annual aggregation: \<^verbatim>\<open>yearly_sum_eia\<close>\<close>

text \<open>\<^verbatim>\<open>np.sum\<close> over the cells of a group: an integer column sums to an integer, any
  other numeric column to a float, missing values skipped.  Integers are 64-bit: the
  sum wraps around.\<close>

fun cell_int :: "cell \<Rightarrow> int option" where
  "cell_int (CInt n) = Some n"
| "cell_int _ = None"

definition int64_wrap :: "int \<Rightarrow> int" where
  "int64_wrap n = (n + 2 ^ 63) mod 2 ^ 64 - 2 ^ 63"

definition cell_sum :: "cell list \<Rightarrow> cell" where
  "cell_sum cs =
     (if list_all (\<lambda>c. cell_int c \<noteq> None) cs
      then CInt (int64_wrap (sum_list (map (\<lambda>c. the (cell_int c)) cs)))
      else CFlt (sum_skipna (map cell_fl cs)))"

text \<open>A row from the names and the cells of its columns.\<close>

definition row_of :: "string list \<Rightarrow> cell list \<Rightarrow> row" where
  "row_of cs vs = (\<lambda>c. case map_of (zip cs vs) c of Some v \<Rightarrow> v | None \<Rightarrow> CNull)"

text \<open>\<^verbatim>\<open>df.groupby(by=cols).agg({sum_by: np.sum})\<close>.  Rows with a missing key belong to no
  group.  The keys, which pandas makes the index of the result, are its first columns
  here.  When some key is not a column, pandas raises KeyError, unless the list of keys
  is as long as the frame: then it takes the list for the group labels of the rows,
  which is not modelled.\<close>

definition groupby_sum :: "string list \<Rightarrow> string \<Rightarrow> frame \<Rightarrow> error + frame" where
  "groupby_sum cols sum_by df =
     (if cols = [] then Inl ValueError
      else if \<not> list_all (\<lambda>c. c \<in> set (columns df)) cols
        then (if length cols = length (rows df) then Inl Unmodelled else Inl KeyError)
      else if sum_by \<notin> set (columns df) \<or> sum_by \<in> set cols then Inl KeyError
      else if \<not> list_all (\<lambda>r. is_numeric (r sum_by)) (rows df) then Inl Unmodelled
      else
        (let valid = filter (\<lambda>r. \<not> list_ex (\<lambda>c. is_null (r c)) cols) (rows df);
             keys = remdups (map (\<lambda>r. map r cols) valid)
         in Inr \<lparr>columns = cols @ [sum_by],
                 rows = map (\<lambda>k. row_of (cols @ [sum_by])
                           (k @ [cell_sum (map (\<lambda>r. r sum_by) (filter (\<lambda>r. map r cols = k) valid))]))
                         keys\<rparr>))"

text \<open>The result, and the state in which the call leaves the caller's \<^verbatim>\<open>df\<close>.\<close>

definition yearly_sum_eia :: "frame \<Rightarrow> string \<Rightarrow> string list \<Rightarrow> (error + frame) \<times> frame" where
  "yearly_sum_eia df sum_by cols =
     (if ''report_date'' \<notin> set (columns df) then (Inl KeyError, df)
      else if \<not> list_all (\<lambda>r. is_datelike (r ''report_date'')) (rows df) then (Inl Unmodelled, df)
      else
        (let df1 = assign_column ''report_year'' (\<lambda>r. year_of (r ''report_date'')) df
         in (groupby_sum cols sum_by df1, df1)))"

definition yearly_sum_eia_default_columns :: "string list" where
  "yearly_sum_eia_default_columns = [''plant_id_eia'', ''generator_id'']"

section \<open>Capacity factor: \<^verbatim>\<open>capacity_factor\<close>\<close>

text \<open>Lines 213-215: net generation over capacity times 8760.\<close>

definition capacity_factor_value :: "fl \<Rightarrow> fl \<Rightarrow> fl" where
  "capacity_factor_value gen cap = fl_div gen (fl_mul cap (Fin 8760))"







section \<open>Fuel-mix proportions and primary fuel\<close>

subsection \<open>\<^verbatim>\<open>pivot_table\<close>\<close>

text \<open>
  \<^verbatim>\<open>df.pivot_table(index=..., columns=..., values=...)\<close>, modelled from pandas, on
  records (index key, column label, value): the records of one key and one label are
  aggregated by the default \<^verbatim>\<open>aggfunc\<close>, the mean of the values that are not NaN; an
  aggregate that is NaN is dropped; the labels that remain are the columns, sorted, and
  a cell without a record is NaN.
\<close>

definition mean_skipna :: "fl list \<Rightarrow> fl" where
  "mean_skipna xs =
     (if filter (\<lambda>x. x \<noteq> NaN) xs = [] then NaN
      else fl_div (fl_sum (filter (\<lambda>x. x \<noteq> NaN) xs))
             (Fin (real (length (filter (\<lambda>x. x \<noteq> NaN) xs)))))"

record 'k pivot =
  pcols :: "string list"
  prows :: "('k \<times> fl list) list"

definition group_values :: "('k \<times> string \<times> fl) list \<Rightarrow> 'k \<times> string \<Rightarrow> fl list" where
  "group_values recs kf = map (\<lambda>r. snd (snd r)) (filter (\<lambda>r. (fst r, fst (snd r)) = kf) recs)"

definition group_keys :: "('k \<times> string \<times> fl) list \<Rightarrow> ('k \<times> string) list" where
  "group_keys recs = remdups (map (\<lambda>r. (fst r, fst (snd r))) recs)"

definition pivot_table :: "('k \<times> string \<times> fl) list \<Rightarrow> 'k pivot" where
  "pivot_table recs =
     (let agged = map (\<lambda>kf. (kf, mean_skipna (group_values recs kf))) (group_keys recs);
          kept = filter (\<lambda>a. snd a \<noteq> NaN) agged;
          cols = sort (remdups (map (\<lambda>a. snd (fst a)) kept));
          keys = remdups (map (\<lambda>a. fst (fst a)) kept)
      in \<lparr>pcols = cols,
          prows = map (\<lambda>k. (k, map (\<lambda>f. case map_of kept (k, f) of Some m \<Rightarrow> m | None \<Rightarrow> NaN) cols))
                    keys\<rparr>)"

text \<open>\<^verbatim>\<open>groupby([...]).agg(np.sum)\<close> of the value, by key and label.\<close>

definition groupby_agg_sum :: "('k \<times> string \<times> fl) list \<Rightarrow> ('k \<times> string \<times> fl) list" where
  "groupby_agg_sum recs =
     map (\<lambda>kf. (fst kf, snd kf, sum_skipna (group_values recs kf))) (group_keys recs)"

subsection \<open>From heat content to shares\<close>

text \<open>
  The steps that the three \<^verbatim>\<open>plant_fuel_proportions_*\<close> functions share (lines 774-780,
  823-834, 893-904), for one row of the pivot: the column \<^verbatim>\<open>total\<close> is the sum of the
  row, NaN skipped; missing cells become 0; every column is divided by \<^verbatim>\<open>total\<close>; the
  column \<^verbatim>\<open>total\<close> is dropped.  (A fuel that is itself called \<^verbatim>\<open>total\<close> is overwritten
  by the sum and dropped with it.)
\<close>

definition fillna0 :: "fl \<Rightarrow> fl" where
  "fillna0 x = (if x = NaN then Fin 0 else x)"

definition share_columns :: "string list \<Rightarrow> string list" where
  "share_columns cols = filter (\<lambda>c. c \<noteq> ''total'') cols"

definition fuel_shares :: "string list \<Rightarrow> fl list \<Rightarrow> fl list" where
  "fuel_shares cols cells =
     map (\<lambda>cv. fl_div (fillna0 (snd cv)) (fillna0 (sum_skipna cells)))
       (filter (\<lambda>cv. fst cv \<noteq> ''total'') (zip cols cells))"

text \<open>
  \<^verbatim>\<open>reset_index()\<close> makes the index levels columns, and raises ValueError when a column
  of that name exists.  The result as a frame: the index columns, one column per
  fuel, and for \<^verbatim>\<open>plant_fuel_proportions_ferc1\<close> the column \<^verbatim>\<open>total_mmbtu\<close> (lines
  775-776 and 783-785), which is the total before the missing cells became 0.  A fuel
  that is called \<^verbatim>\<open>total_mmbtu\<close> would give that frame two columns of one name.
\<close>

definition proportions_frame ::
  "string list \<Rightarrow> ('k \<Rightarrow> cell list) \<Rightarrow> bool \<Rightarrow> 'k pivot \<Rightarrow> error + frame" where
  "proportions_frame index_names key_cells with_total pv =
     (if list_ex (\<lambda>c. c \<in> set index_names) (share_columns (pcols pv)) then Inl ValueError
      else if with_total \<and> ''total_mmbtu'' \<in> set (pcols pv) then Inl Unmodelled
      else Inr
        \<lparr>columns = index_names @ share_columns (pcols pv) @ (if with_total then [''total_mmbtu''] else []),
         rows = map (\<lambda>kc. row_of
                       (index_names @ share_columns (pcols pv)
                          @ (if with_total then [''total_mmbtu''] else []))
                       (key_cells (fst kc) @ map CFlt (fuel_shares (pcols pv) (snd kc))
                          @ (if with_total then [CFlt (sum_skipna (snd kc))] else [])))
                  (prows pv)\<rparr>)"

subsection \<open>\<^verbatim>\<open>plant_fuel_proportions_ferc1\<close>\<close>

record fuel_ferc1_row =
  report_year :: int
  respondent_id :: int
  plant_name :: string
  fuel :: string
  fuel_qty_burned :: fl
  fuel_avg_mmbtu_per_unit :: fl

definition heat_pivot_ferc1 :: "fuel_ferc1_row list \<Rightarrow> (int \<times> int \<times> string) pivot" where
  "heat_pivot_ferc1 fuel_df =
     pivot_table (map (\<lambda>r. ((report_year r, respondent_id r, plant_name r), fuel r,
                             fl_mul (fuel_qty_burned r) (fuel_avg_mmbtu_per_unit r))) fuel_df)"

definition ferc1_key_cells :: "int \<times> int \<times> string \<Rightarrow> cell list" where
  "ferc1_key_cells k = [CInt (fst k), CInt (fst (snd k)), CStr (snd (snd k))]"

definition plant_fuel_proportions_ferc1 :: "fuel_ferc1_row list \<Rightarrow> error + frame" where
  "plant_fuel_proportions_ferc1 fuel_df =
     proportions_frame [''report_year'', ''respondent_id'', ''plant_name''] ferc1_key_cells True
       (heat_pivot_ferc1 fuel_df)"

subsection \<open>\<^verbatim>\<open>plant_fuel_proportions_frc_eia923\<close>\<close>

text \<open>The deliveries carry their date; the frame is taken to be indexed by it, as
  \<^verbatim>\<open>pd.Grouper(freq='A')\<close> needs.  The annual group of a date is its year.\<close>

record frc_row =
  frc_report_date :: "int \<times> nat \<times> nat"
  plant_id_eia :: int
  plant_id_pudl :: int
  fuel_group :: string
  fuel_quantity :: fl
  average_heat_content :: fl

definition frc_id :: "string \<Rightarrow> (frc_row \<Rightarrow> int) option" where
  "frc_id id_col =
     (if id_col = ''plant_id_eia'' then Some plant_id_eia
      else if id_col = ''plant_id_pudl'' then Some plant_id_pudl
      else None)"

definition heat_pivot_frc :: "(frc_row \<Rightarrow> int) \<Rightarrow> frc_row list \<Rightarrow> (int \<times> int) pivot" where
  "heat_pivot_frc ident frc_df =
     pivot_table (groupby_agg_sum
       (map (\<lambda>r. ((fst (frc_report_date r), ident r), fuel_group r,
                   fl_mul (fuel_quantity r) (average_heat_content r))) frc_df))"

definition year_id_cells :: "int \<times> int \<Rightarrow> cell list" where
  "year_id_cells k = [CInt (fst k), CInt (snd k)]"

definition plant_fuel_proportions_frc_eia923 :: "frc_row list \<Rightarrow> string \<Rightarrow> error + frame" where
  "plant_fuel_proportions_frc_eia923 frc_df id_col =
     (case frc_id id_col of
        None \<Rightarrow> (if id_col \<in> {''report_date'', ''fuel_group'', ''total_mmbtu''} then Inl Unmodelled
                 else Inl KeyError)
      | Some ident \<Rightarrow> proportions_frame [''year'', id_col] year_id_cells False (heat_pivot_frc ident frc_df))"

subsection \<open>\<^verbatim>\<open>plant_fuel_proportions_gf_eia923\<close>\<close>

record gf_row =
  gf_report_date :: "int \<times> nat \<times> nat"
  plant_id :: int
  fuel_type_pudl :: string
  fuel_consumed_total_mmbtu :: fl

definition heat_pivot_gf :: "gf_row list \<Rightarrow> (int \<times> int) pivot" where
  "heat_pivot_gf gf_df =
     pivot_table (groupby_agg_sum
       (map (\<lambda>r. ((fst (gf_report_date r), plant_id r), fuel_type_pudl r,
                   fuel_consumed_total_mmbtu r)) gf_df))"

definition plant_fuel_proportions_gf_eia923 :: "gf_row list \<Rightarrow> error + frame" where
  "plant_fuel_proportions_gf_eia923 gf_df =
     proportions_frame [''year'', ''plant_id''] year_id_cells False (heat_pivot_gf gf_df)"

subsection \<open>The \<^verbatim>\<open>primary_fuel_*\<close> functions\<close>

text \<open>\<^verbatim>\<open>df.set_index(keys)\<close>: the keys leave the columns; a key that is no column raises
  KeyError.  The result is the frame of the remaining columns, and the keys.\<close>

definition set_index :: "string list \<Rightarrow> frame \<Rightarrow> error + frame" where
  "set_index keys df =
     (if list_all (\<lambda>k. k \<in> set (columns df)) keys
      then Inr \<lparr>columns = filter (\<lambda>c. c \<notin> set keys) (columns df), rows = rows df\<rparr>
      else Inl KeyError)"

text \<open>
  \<^verbatim>\<open>df.where(df >= fuel_thresh)\<close> for one cell, and \<^verbatim>\<open>idxmax(axis=1)\<close> for one row: the
  first label, in column order, of the greatest value, where NaN counts as the least
  value of all; a row of nothing but NaN has no label (NaN).
\<close>

definition where_ge :: "fl \<Rightarrow> fl \<Rightarrow> fl" where
  "where_ge thresh x = (if fl_ge x thresh then x else NaN)"

definition nan_low :: "fl \<Rightarrow> fl" where
  "nan_low x = (if x = NaN then NInf else x)"

fun argmax_first :: "(string \<times> fl) list \<Rightarrow> (string \<times> fl) option" where
  "argmax_first [] = None"
| "argmax_first (cv # rest) =
     (case argmax_first rest of
        None \<Rightarrow> Some cv
      | Some best \<Rightarrow> if fl_lt (nan_low (snd cv)) (nan_low (snd best)) then Some best else Some cv)"

definition idxmax :: "(string \<times> fl) list \<Rightarrow> string option" where
  "idxmax cvs =
     (if list_all (\<lambda>cv. snd cv = NaN) cvs then None
      else map_option fst (argmax_first cvs))"

definition primary_fuel_cell :: "string list \<Rightarrow> fl \<Rightarrow> row \<Rightarrow> cell" where
  "primary_fuel_cell cols thresh r =
     (case idxmax (map (\<lambda>c. (c, where_ge thresh (cell_fl (r c)))) cols) of
        None \<Rightarrow> CNull
      | Some f \<Rightarrow> CStr f)"

text \<open>Lines 750-753 (and 853-856, 923-926), on the frame \<open>df\<close> that \<^verbatim>\<open>set_index\<close> left,
  whose index is \<open>keys\<close>.  Comparing a string or a date with the threshold raises
  TypeError; the greatest value of a row without columns raises ValueError.\<close>

definition primary_fuel_of :: "string list \<Rightarrow> fl \<Rightarrow> frame \<Rightarrow> error + frame" where
  "primary_fuel_of keys thresh df =
     (if \<not> list_all (\<lambda>r. list_all (\<lambda>c. is_numeric (r c)) (columns df)) (rows df) then Inl TypeError
      else if columns df = [] then Inl ValueError
      else Inr \<lparr>columns = keys @ [''primary_fuel''],
                rows = map (\<lambda>r. r(''primary_fuel'' := primary_fuel_cell (columns df) thresh r)) (rows df)\<rparr>)"

definition primary_fuel_ferc1 :: "fuel_ferc1_row list \<Rightarrow> fl \<Rightarrow> error + frame" where
  "primary_fuel_ferc1 fuel_df fuel_thresh =
     (case plant_fuel_proportions_ferc1 fuel_df of
        Inl e \<Rightarrow> Inl e
      | Inr plants_by_heat \<Rightarrow>
         (case set_index [''report_year'', ''respondent_id'', ''plant_name''] plants_by_heat of
            Inl e \<Rightarrow> Inl e
          | Inr indexed \<Rightarrow>
             (case drop_columns [''total_mmbtu''] indexed of
                Inl e \<Rightarrow> Inl e
              | Inr shares \<Rightarrow>
                  primary_fuel_of [''report_year'', ''respondent_id'', ''plant_name'']
                    fuel_thresh shares)))"

text \<open>Line 846 calls \<^verbatim>\<open>plant_fuel_proportions_frc_eia923(frc_df)\<close>, with the default
  \<^verbatim>\<open>id_col\<close>, whatever \<^verbatim>\<open>id_col\<close> the caller gave.\<close>

definition primary_fuel_frc_eia923 :: "frc_row list \<Rightarrow> string \<Rightarrow> fl \<Rightarrow> error + frame" where
  "primary_fuel_frc_eia923 frc_df id_col fuel_thresh =
     (case plant_fuel_proportions_frc_eia923 frc_df ''plant_id_eia'' of
        Inl e \<Rightarrow> Inl e
      | Inr frc_by_heat \<Rightarrow>
         (case set_index [id_col, ''year''] frc_by_heat of
            Inl e \<Rightarrow> Inl e
          | Inr shares \<Rightarrow> primary_fuel_of [id_col, ''year''] fuel_thresh shares))"

definition primary_fuel_gf_eia923 :: "gf_row list \<Rightarrow> string \<Rightarrow> fl \<Rightarrow> error + frame" where
  "primary_fuel_gf_eia923 gf_df id_col fuel_thresh =
     (case plant_fuel_proportions_gf_eia923 gf_df of
        Inl e \<Rightarrow> Inl e
      | Inr gf_by_heat \<Rightarrow>
         (case set_index [id_col, ''report_year''] gf_by_heat of
            Inl e \<Rightarrow> Inl e
          | Inr shares \<Rightarrow> primary_fuel_of [id_col, ''report_year''] fuel_thresh shares))"

text \<open>The example of the specification: plant 42 in 2015, 300 MMBTU of gas and 700 of
  coal; and a plant whose one record has a heat content of zero.\<close>

definition gf_example :: "gf_row list" where
  "gf_example =
     [\<lparr>gf_report_date = (2015, 3, 1), plant_id = 42, fuel_type_pudl = ''gas'',
       fuel_consumed_total_mmbtu = Fin 300\<rparr>,
      \<lparr>gf_report_date = (2015, 4, 1), plant_id = 42, fuel_type_pudl = ''coal'',
       fuel_consumed_total_mmbtu = Fin 700\<rparr>]"

definition gf_example_zero :: "gf_row list" where
  "gf_example_zero =
     [\<lparr>gf_report_date = (2015, 3, 1), plant_id = 42, fuel_type_pudl = ''gas'',
       fuel_consumed_total_mmbtu = Fin 0\<rparr>]"

definition frc_example :: "frc_row list" where
  "frc_example =
     [\<lparr>frc_report_date = (2015, 3, 1), plant_id_eia = 42, plant_id_pudl = 7, fuel_group = ''gas'',
       fuel_quantity = Fin 30, average_heat_content = Fin 10\<rparr>,
      \<lparr>frc_report_date = (2015, 4, 1), plant_id_eia = 42, plant_id_pudl = 7, fuel_group = ''coal'',
       fuel_quantity = Fin 35, average_heat_content = Fin 20\<rparr>]"

definition fuel_ferc1_example :: "fuel_ferc1_row list" where
  "fuel_ferc1_example =
     [\<lparr>report_year = 2015, respondent_id = 9, plant_name = ''Comanche'', fuel = ''gas'',
       fuel_qty_burned = Fin 30, fuel_avg_mmbtu_per_unit = Fin 10\<rparr>,
      \<lparr>report_year = 2015, respondent_id = 9, plant_name = ''Comanche'', fuel = ''coal'',
       fuel_qty_burned = Fin 35, fuel_avg_mmbtu_per_unit = Fin 20\<rparr>]"

subsection \<open>Auxiliary notions for the properties of the shares\<close>

text \<open>The number that a finite value is, and the cells that are a number or missing.\<close>

fun fl_val :: "fl \<Rightarrow> real" where
  "fl_val (Fin a) = a"
| "fl_val _ = 0"

definition finite_or_nan :: "fl \<Rightarrow> bool" where
  "finite_or_nan v = (v = NaN \<or> (\<exists>a. v = Fin a))"

text \<open>
  What holds of the frame \<open>out\<close> of shares that is computed from the pivot \<open>pv\<close> of heat
  contents: \<open>out\<close> has one row for each row of the pivot (each plant and year), in the
  same order, and for a row whose heat contents are numbers or missing,
  \<^item> the shares add up to 1 when the total heat content is not zero,
  \<^item> which is so when no heat content is negative and one of them is not zero;
  \<^item> every share is NaN when every heat content is zero or missing.
\<close>

abbreviation proportions_as_amended :: "'k pivot \<Rightarrow> frame \<Rightarrow> bool" where
  "proportions_as_amended pv out \<equiv>
     length (rows out) = length (prows pv) \<and>
     (\<forall>i<length (prows pv).
        list_all finite_or_nan (snd (prows pv ! i)) \<longrightarrow>
          (sum_skipna (snd (prows pv ! i)) \<noteq> Fin 0 \<longrightarrow>
             fl_sum (map (\<lambda>c. cell_fl ((rows out ! i) c)) (share_columns (pcols pv))) = Fin 1)
        \<and> (list_all (\<lambda>v. v = NaN \<or> (\<exists>a. v = Fin a \<and> 0 \<le> a)) (snd (prows pv ! i))
             \<and> list_ex (\<lambda>v. v \<noteq> NaN \<and> v \<noteq> Fin 0) (snd (prows pv ! i)) \<longrightarrow>
             fl_sum (map (\<lambda>c. cell_fl ((rows out ! i) c)) (share_columns (pcols pv))) = Fin 1)
        \<and> (list_all (\<lambda>v. v = NaN \<or> v = Fin 0) (snd (prows pv ! i)) \<longrightarrow>
             list_all (\<lambda>s. s = NaN)
               (map (\<lambda>c. cell_fl ((rows out ! i) c)) (share_columns (pcols pv)))))"

text \<open>
  What holds of the frame \<open>out\<close> of primary fuels that is computed from the frame
  \<open>shares\<close>, whose fuel columns are \<open>fuels\<close>, with the threshold \<open>t\<close>: \<open>out\<close> has one row
  for each row of \<open>shares\<close>, with the same cells but for \<^verbatim>\<open>primary_fuel\<close>, which is
  \<^item> missing when no share of the row is at or above the threshold,
  \<^item> and otherwise a fuel whose share is at or above the threshold and is the
    greatest share of the row.
\<close>

abbreviation primary_fuel_as_claimed :: "real \<Rightarrow> string list \<Rightarrow> frame \<Rightarrow> frame \<Rightarrow> bool" where
  "primary_fuel_as_claimed t fuels shares out \<equiv>
     length (rows out) = length (rows shares) \<and>
     (\<forall>i<length (rows shares).
        (\<forall>k. k \<noteq> ''primary_fuel'' \<longrightarrow> (rows out ! i) k = (rows shares ! i) k)
        \<and> (list_all (\<lambda>c. \<not> fl_ge (cell_fl ((rows shares ! i) c)) (Fin t)) fuels
              \<longrightarrow> (rows out ! i) ''primary_fuel'' = CNull)
        \<and> (list_ex (\<lambda>c. fl_ge (cell_fl ((rows shares ! i) c)) (Fin t)) fuels
              \<longrightarrow> (\<exists>f \<in> set fuels. (rows out ! i) ''primary_fuel'' = CStr f
                    \<and> fl_ge (cell_fl ((rows shares ! i) f)) (Fin t)
                    \<and> (\<forall>c \<in> set fuels. cell_fl ((rows shares ! i) c) = NaN
                          \<or> fl_le (cell_fl ((rows shares ! i) c)) (cell_fl ((rows shares ! i) f))))))"

section \<open>New-plant discovery: \<^verbatim>\<open>fercplants\<close>\<close>

subsection \<open>\<^verbatim>\<open>str.strip\<close> and \<^verbatim>\<open>str.title\<close>\<close>

text \<open>On ASCII strings.  \<^verbatim>\<open>title\<close> makes a letter upper case when the character before
  it is not a letter, and lower case when it is.\<close>

definition whitespace :: "char list" where
  "whitespace = [CHR '' '', CHR 0x09, CHR 0x0A, CHR 0x0B, CHR 0x0C, CHR 0x0D,
                 CHR 0x1C, CHR 0x1D, CHR 0x1E, CHR 0x1F]"

definition str_strip :: "string \<Rightarrow> string" where
  "str_strip s =
     rev (dropWhile (\<lambda>c. c \<in> set whitespace) (rev (dropWhile (\<lambda>c. c \<in> set whitespace) s)))"

definition lower_letters :: "char list" where
  "lower_letters = ''abcdefghijklmnopqrstuvwxyz''"

definition upper_letters :: "char list" where
  "upper_letters = ''ABCDEFGHIJKLMNOPQRSTUVWXYZ''"

definition to_upper :: "char \<Rightarrow> char" where
  "to_upper c = (case map_of (zip lower_letters upper_letters) c of Some u \<Rightarrow> u | None \<Rightarrow> c)"

definition to_lower :: "char \<Rightarrow> char" where
  "to_lower c = (case map_of (zip upper_letters lower_letters) c of Some l \<Rightarrow> l | None \<Rightarrow> c)"

fun title_from :: "bool \<Rightarrow> string \<Rightarrow> string" where
  "title_from previous_is_cased [] = []"
| "title_from previous_is_cased (c # cs) =
     (if c \<in> set lower_letters
        then (if previous_is_cased then c else to_upper c) # title_from True cs
      else if c \<in> set upper_letters
        then (if previous_is_cased then to_lower c else c) # title_from True cs
      else c # title_from False cs)"

definition str_title :: "string \<Rightarrow> string" where
  "str_title s = title_from False s"

subsection \<open>The two databases\<close>

text \<open>
  A row of a plant table of the FERC Form 1 database: respondent id, plant name, the
  table's capacity column in MW (\<^verbatim>\<open>capacity_cols\<close>, lines 1000-1003) and report year.
  A row of \<^verbatim>\<open>f1_respondent_id\<close>: respondent id and respondent name.  A row of the
  result: respondent id, respondent name, plant name, plant table.  The table
  \<^verbatim>\<open>plants_ferc\<close> of the PUDL database is given by its pairs of respondent id and
  plant name.  The order in which a query returns its rows is that of the table.
\<close>

type_synonym f1_plant_row = "int \<times> string \<times> fl \<times> int"

type_synonym ferc_plant = "int \<times> string \<times> string \<times> string"

record ferc1_db =
  f1_tables :: "string \<Rightarrow> f1_plant_row list"
  f1_respondent_id :: "(int \<times> string) list"

definition okay_tbls :: "string list" where
  "okay_tbls = [''f1_steam'', ''f1_gnrt_plant'', ''f1_hydro'', ''f1_pumped_storage'']"

text \<open>The query of lines 1008-1019.\<close>

definition plant_select :: "ferc1_db \<Rightarrow> string \<Rightarrow> int list \<Rightarrow> fl \<Rightarrow> (int \<times> string \<times> string) list" where
  "plant_select db tbl years min_capacity =
     remdups (concat (map (\<lambda>p. map (\<lambda>r. (fst p, fst (snd p), snd r))
                                (filter (\<lambda>r. fst p = fst r) (f1_respondent_id db)))
                (filter (\<lambda>p. fst (snd p) \<noteq> '''' \<and> fl_ge (fst (snd (snd p))) min_capacity
                           \<and> snd (snd (snd p)) \<in> set years)
                   (f1_tables db tbl))))"

text \<open>Lines 1021-1031, for one table; and the frame that the loop builds.\<close>

definition new_plants :: "ferc1_db \<Rightarrow> string \<Rightarrow> int list \<Rightarrow> fl \<Rightarrow> ferc_plant list" where
  "new_plants db tbl years min_capacity =
     map (\<lambda>q. (fst q, str_title (str_strip (snd (snd q))), str_title (str_strip (fst (snd q))), tbl))
       (plant_select db tbl years min_capacity)"

definition ferc1_plants_all :: "ferc1_db \<Rightarrow> string list \<Rightarrow> int list \<Rightarrow> fl \<Rightarrow> ferc_plant list" where
  "ferc1_plants_all db plant_tables years min_capacity =
     concat (map (\<lambda>tbl. new_plants db tbl years min_capacity) plant_tables)"

text \<open>The index of lines 1036-1037: respondent id and plant name.\<close>

definition plant_index :: "ferc_plant \<Rightarrow> int \<times> string" where
  "plant_index p = (fst p, fst (snd (snd p)))"

text \<open>\<^verbatim>\<open>Index.difference\<close>: the labels of the first index that are not in the second,
  each once, sorted.\<close>

definition index_difference :: "(int \<times> string) list \<Rightarrow> (int \<times> string) list \<Rightarrow> (int \<times> string) list" where
  "index_difference a b = sort (remdups (filter (\<lambda>x. x \<notin> set b) a))"

text \<open>
  \<^verbatim>\<open>fercplants\<close>, given the two databases and \<^verbatim>\<open>constants.working_years['ferc1']\<close>,
  which is not part of the source.  Without a table the frame has no columns, and
  \<^verbatim>\<open>set_index\<close> raises KeyError; \<^verbatim>\<open>max\<close> of no working years raises ValueError.
\<close>

definition fercplants ::
  "ferc1_db \<Rightarrow> (int \<times> string) list \<Rightarrow> int list \<Rightarrow> string list \<Rightarrow> int list \<Rightarrow> bool \<Rightarrow> fl
   \<Rightarrow> error + ferc_plant list" where
  "fercplants db plants_ferc working_years plant_tables years new min_capacity =
     (if \<not> new \<and> \<not> list_all (\<lambda>yr. yr \<in> set working_years) years then Inl AssertionError
      else if \<not> list_all (\<lambda>tbl. tbl \<in> set okay_tbls) plant_tables then Inl AssertionError
      else if working_years = [] then Inl ValueError
      else if new then
        (if plant_tables = [] then Inl KeyError
         else Inr (concat (map (\<lambda>idx. filter (\<lambda>p. plant_index p = idx)
                                        (ferc1_plants_all db plant_tables years min_capacity))
                     (index_difference
                        (map plant_index (ferc1_plants_all db plant_tables years min_capacity))
                        (remdups plants_ferc)))))
      else Inr (ferc1_plants_all db plant_tables years min_capacity))"

text \<open>An example: three steam plants, one of them below 5 MW, and a PUDL database
  that knows the first of them.\<close>

definition ferc1_db_example :: ferc1_db where
  "ferc1_db_example =
     \<lparr>f1_tables = (\<lambda>tbl. if tbl = ''f1_steam''
                     then [(1, '' comanche '', Fin 100, 2015), (2, ''cherokee 4'', Fin 50, 2015),
                           (2, ''tiny'', Fin 1, 2015)]
                     else []),
      f1_respondent_id = [(1, ''xcel energy ''), (2, ''PSCO'')]\<rparr>"

definition plants_ferc_example :: "(int \<times> string) list" where
  "plants_ferc_example = [(1, ''Comanche'')]"

section \<open>Auxiliary definitions and example inputs\<close>

text \<open>The dictionary of correlations once \<^verbatim>\<open>expns_fuel\<close> has been popped (line 288).\<close>

definition popped :: "steam_row list \<Rightarrow> fl \<Rightarrow> (string \<times> fl) list" where
  "popped df mcf = filter (\<lambda>kv. fst kv \<noteq> ''expns_fuel'') (ferc1_expns_corr df mcf)"

text \<open>A steam table of one plant that reports one expense; one of two plants whose
  expenses all grow with generation; and two plants whose capacity factors are 0.5 and
  0.7.\<close>

definition steam_example_one :: steam_row where
  "steam_example_one = \<lparr>net_generation_mwh = Fin 1, total_capacity_mw = Fin 8760,
        expns = (\<lambda>_. Fin 0)(''expns_operations'' := Fin 5)\<rparr>"

text \<open>A steam table of two plants: the second generated nothing, so that the
  capacity-factor filter drops it, and is the only one that reports coolants.\<close>

definition steam_example_idle :: "steam_row list" where
  "steam_example_idle =
     [\<lparr>net_generation_mwh = Fin 1, total_capacity_mw = Fin 8760,
        expns = (\<lambda>_. Fin 0)(''expns_operations'' := Fin 5)\<rparr>,
      \<lparr>net_generation_mwh = Fin 0, total_capacity_mw = Fin 8760,
        expns = (\<lambda>_. Fin 0)(''expns_coolants'' := Fin 7)\<rparr>]"

definition steam_example_two :: "steam_row list" where
  "steam_example_two =
     [\<lparr>net_generation_mwh = Fin 1, total_capacity_mw = Fin 8760, expns = (\<lambda>_. Fin 1)\<rparr>,
      \<lparr>net_generation_mwh = Fin 3, total_capacity_mw = Fin 8760, expns = (\<lambda>_. Fin 3)\<rparr>]"

definition steam_example_capfac :: "steam_row list" where
  "steam_example_capfac =
     [\<lparr>net_generation_mwh = Fin 8760, total_capacity_mw = Fin 2, expns = (\<lambda>_. Fin 1)\<rparr>,
      \<lparr>net_generation_mwh = Fin 3066, total_capacity_mw = Fin (1/2), expns = (\<lambda>_. Fin 1)\<rparr>]"




text \<open>Two records of generator A of plant 1, one of June 2015 and one of June 2016;
  and a frame that has the year of each record but no report date.\<close>

definition gen_example :: frame where
  "gen_example =
     \<lparr>columns = [''plant_id_eia'', ''generator_id'', ''report_date'', ''net_generation_mwh''],
      rows = [row_of [''plant_id_eia'', ''generator_id'', ''report_date'', ''net_generation_mwh'']
                [CInt 1, CStr ''A'', CDate 2015 6 1, CFlt (Fin 100)],
              row_of [''plant_id_eia'', ''generator_id'', ''report_date'', ''net_generation_mwh'']
                [CInt 1, CStr ''A'', CDate 2016 6 1, CFlt (Fin 150)]]\<rparr>"

definition gen_example_by_year :: frame where
  "gen_example_by_year =
     \<lparr>columns = [''plant_id_eia'', ''generator_id'', ''report_year'', ''net_generation_mwh''],
      rows = [row_of [''plant_id_eia'', ''generator_id'', ''report_year'', ''net_generation_mwh'']
                [CInt 1, CStr ''A'', CInt 2015, CFlt (Fin 100)]]\<rparr>"

text \<open>An annual table of plant 1 for 2014, 2015 and 2016, to be merged with the two
  records above; and the records of 2015 and 2017, the second of which has no annual
  row.\<close>

definition annual_example :: frame where
  "annual_example =
     \<lparr>columns = [''report_date'', ''plant_id_eia'', ''nameplate_capacity_mw''],
      rows = [row_of [''report_date'', ''plant_id_eia'', ''nameplate_capacity_mw'']
                [CDate 2014 1 1, CInt 1, CFlt (Fin 10)],
              row_of [''report_date'', ''plant_id_eia'', ''nameplate_capacity_mw'']
                [CDate 2015 1 1, CInt 1, CFlt (Fin 11)],
              row_of [''report_date'', ''plant_id_eia'', ''nameplate_capacity_mw'']
                [CDate 2016 1 1, CInt 1, CFlt (Fin 12)]]\<rparr>"



text \<open>The example of the specification: two records of generator A of plant 1 in 2015,
  of 100 and 150 MWh.\<close>

definition gen_example_same_year :: frame where
  "gen_example_same_year =
     \<lparr>columns = [''plant_id_eia'', ''generator_id'', ''report_date'', ''net_generation_mwh''],
      rows = [row_of [''plant_id_eia'', ''generator_id'', ''report_date'', ''net_generation_mwh'']
                [CInt 1, CStr ''A'', CDate 2015 3 1, CFlt (Fin 100)],
              row_of [''plant_id_eia'', ''generator_id'', ''report_date'', ''net_generation_mwh'']
                [CInt 1, CStr ''A'', CDate 2015 9 1, CFlt (Fin 150)]]\<rparr>"

text \<open>The frames of the caller after a first call: the two records of generator A with
  their \<^verbatim>\<open>report_year\<close>, and the records of 2015 and 2017 and the annual table with
  their \<^verbatim>\<open>year_temp\<close>.\<close>

definition gen_example_after_call :: frame where
  "gen_example_after_call =
     \<lparr>columns = [''plant_id_eia'', ''generator_id'', ''report_date'', ''net_generation_mwh'',
                 ''report_year''],
      rows = [row_of [''plant_id_eia'', ''generator_id'', ''report_date'', ''net_generation_mwh'',
                      ''report_year'']
                [CInt 1, CStr ''A'', CDate 2015 6 1, CFlt (Fin 100), CInt 2015],
              row_of [''plant_id_eia'', ''generator_id'', ''report_date'', ''net_generation_mwh'',
                      ''report_year'']
                [CInt 1, CStr ''A'', CDate 2016 6 1, CFlt (Fin 150), CInt 2016]]\<rparr>"

definition late_example_after_call :: frame where
  "late_example_after_call =
     \<lparr>columns = [''plant_id_eia'', ''report_date'', ''year_temp''],
      rows = [row_of [''plant_id_eia'', ''report_date'', ''year_temp'']
                [CInt 1, CDate 2015 6 1, CInt 2015],
              row_of [''plant_id_eia'', ''report_date'', ''year_temp'']
                [CInt 1, CDate 2017 6 1, CInt 2017]]\<rparr>"

definition annual_example_after_call :: frame where
  "annual_example_after_call =
     \<lparr>columns = [''report_date'', ''plant_id_eia'', ''nameplate_capacity_mw'', ''year_temp''],
      rows = [row_of [''report_date'', ''plant_id_eia'', ''nameplate_capacity_mw'', ''year_temp'']
                [CDate 2014 1 1, CInt 1, CFlt (Fin 10), CInt 2014],
              row_of [''report_date'', ''plant_id_eia'', ''nameplate_capacity_mw'', ''year_temp'']
                [CDate 2015 1 1, CInt 1, CFlt (Fin 11), CInt 2015],
              row_of [''report_date'', ''plant_id_eia'', ''nameplate_capacity_mw'', ''year_temp'']
                [CDate 2016 1 1, CInt 1, CFlt (Fin 12), CInt 2016]]\<rparr>"


section \<open>Rows given by their cells\<close>

lemma row_of_Cons: "row_of (c # cs) (v # vs) = (row_of cs vs)(c := v)"
  by (auto simp: row_of_def fun_eq_iff)

lemma row_of_Nil: "row_of [] [] = null_row"
  by (auto simp: row_of_def null_row_def)


section \<open>Properties of the production-cost classification\<close>


lemma fl_add_commute: "fl_add x y = fl_add y x"
  by (cases x; cases y) simp_all

lemma fl_add_assoc: "fl_add (fl_add x y) z = fl_add x (fl_add y z)"
  by (cases x; cases y; cases z) simp_all

lemma fl_add_zero [simp]: "fl_add (Fin 0) x = x" "fl_add x (Fin 0) = x"
  by (cases x; simp)+

lemma fl_add_left_commute: "fl_add x (fl_add y z) = fl_add y (fl_add x z)"
  by (metis fl_add_assoc fl_add_commute)

lemma sum_skipna_Cons:
  "sum_skipna (x # xs) = (if x = NaN then sum_skipna xs else fl_add x (sum_skipna xs))"
  by (simp add: sum_skipna_def)

lemma sum_skipna_partition:
  "fl_add (sum_skipna (map f (filter P ks))) (sum_skipna (map f (filter (\<lambda>k. \<not> P k) ks)))
   = sum_skipna (map f ks)"
proof (induction ks)
  case Nil
  show ?case by (simp add: sum_skipna_def)
next
  case (Cons k ks)
  show ?case
  proof (cases "P k")
    case True
    then show ?thesis using Cons
      by (auto simp: sum_skipna_Cons fl_add_assoc)
  next
    case False
    then show ?thesis using Cons
      by (auto simp: sum_skipna_Cons fl_add_left_commute)
  qed
qed

lemma fl_ge_iff_not_lt: "v \<noteq> NaN \<Longrightarrow> c \<noteq> NaN \<Longrightarrow> fl_ge v c \<longleftrightarrow> \<not> fl_lt v c"
  by (cases v; cases c) (auto simp: fl_ge_def fl_le_def)

lemma fl_cmp_NaN [simp]: "\<not> fl_ge NaN c" "\<not> fl_lt NaN c" "\<not> fl_gt NaN c" "\<not> fl_le NaN c"
  by (cases c; simp add: fl_ge_def fl_le_def fl_gt_def)+

lemma corrcoef_nil: "corrcoef [] [] = NaN"
  by (simp add: corrcoef_def np_cov_def np_dot_def np_average_def np_clip_def fl_gt_def)

lemma dict_pop_fuel:
  "dict_pop ''expns_fuel'' (ferc1_expns_corr df mcf)
   = Inr (filter (\<lambda>kv. fst kv \<noteq> ''expns_fuel'') (ferc1_expns_corr df mcf))"
  by (simp add: dict_pop_def ferc1_expns_corr_def cols_to_correlate_def)

lemma popped_eq:
  "popped df mcf = map (\<lambda>e. (e, expns_corr_of (limit_by_capfac mcf df) e))
      (filter (\<lambda>e. e \<noteq> ''expns_fuel'') cols_to_correlate)"
  by (simp add: popped_def ferc1_expns_corr_def filter_map comp_def)

lemma nonfuel_px_eq:
  "nonfuel_px (popped df mcf) mc = filter (\<lambda>e. fl_ge (expns_corr_of (limit_by_capfac mcf df) e) mc)
      (filter (\<lambda>e. e \<noteq> ''expns_fuel'') cols_to_correlate)"
  by (simp add: nonfuel_px_def popped_eq filter_map comp_def)

lemma npx_eq:
  "npx (popped df mcf) mc = filter (\<lambda>e. fl_lt (expns_corr_of (limit_by_capfac mcf df) e) mc)
      (filter (\<lambda>e. e \<noteq> ''expns_fuel'') cols_to_correlate)"
  by (simp add: npx_def popped_eq filter_map comp_def)

lemma consolidate_eq:
  "consolidate_ferc1_expns df mcf mc
   = Inr (map (add_totals (nonfuel_px (popped df mcf) mc) (npx (popped df mcf) mc)) df)"
  by (simp add: consolidate_ferc1_expns_def dict_pop_fuel popped_def)


lemma fuel_only: "filter (\<lambda>e. \<not> e \<noteq> ''expns_fuel'') cols_to_correlate = [''expns_fuel'']"
  by (simp add: cols_to_correlate_def)

lemma sum_axis1_all:
  assumes "expns r ''expns_fuel'' \<noteq> NaN"
  shows "sum_axis1 cols_to_correlate r
    = fl_add (sum_axis1 (filter (\<lambda>e. e \<noteq> ''expns_fuel'') cols_to_correlate) r) (expns r ''expns_fuel'')"
proof -
  have "sum_axis1 cols_to_correlate r
      = fl_add (sum_skipna (map (expns r) (filter (\<lambda>e. e \<noteq> ''expns_fuel'') cols_to_correlate)))
          (sum_skipna (map (expns r) (filter (\<lambda>e. \<not> e \<noteq> ''expns_fuel'') cols_to_correlate)))"
    unfolding sum_axis1_def by (rule sum_skipna_partition [symmetric])
  also have "sum_skipna (map (expns r) (filter (\<lambda>e. \<not> e \<noteq> ''expns_fuel'') cols_to_correlate))
      = expns r ''expns_fuel''"
    using assms by (simp only: fuel_only) (simp add: sum_skipna_def)
  finally show ?thesis by (simp add: sum_axis1_def)
qed

lemma buckets_partition:
  assumes "mc \<noteq> NaN" and "list_all (\<lambda>e. g e \<noteq> NaN) ks"
  shows "fl_add (sum_skipna (map f (filter (\<lambda>e. fl_ge (g e) mc) ks)))
           (sum_skipna (map f (filter (\<lambda>e. fl_lt (g e) mc) ks)))
         = sum_skipna (map f ks)"
proof -
  have "filter (\<lambda>e. fl_lt (g e) mc) ks = filter (\<lambda>e. \<not> fl_ge (g e) mc) ks"
    using assms by (intro filter_cong refl) (auto simp: list_all_iff fl_ge_iff_not_lt)
  then show ?thesis by (simp add: sum_skipna_partition)
qed

text \<open>
  Claim C1, as amended.  For a threshold \<open>min_corr\<close> that is a number, when none of the
  fourteen expense categories other than fuel has an undefined (NaN) correlation, then
  for every row whose fuel expense is not missing the two derived columns and the fuel
  expense add up to the sum of the fifteen expense columns.  (The totals skip missing
  values, as \<^verbatim>\<open>sum(axis=1)\<close> does.)
\<close>

theorem consolidate_ferc1_expns_total:
  assumes "min_corr \<noteq> NaN"
    and "list_all (\<lambda>e. expns_corr_of (limit_by_capfac min_capfac steam_df) e \<noteq> NaN)
           (filter (\<lambda>e. e \<noteq> ''expns_fuel'') cols_to_correlate)"
    and "i < length steam_df"
    and "expns (steam_df ! i) ''expns_fuel'' \<noteq> NaN"
  shows "\<exists>out. consolidate_ferc1_expns steam_df min_capfac min_corr = Inr out
           \<and> length out = length steam_df
           \<and> fl_add (fl_add (expns_total_nonfuel_production (out ! i))
                       (expns_total_nonproduction (out ! i)))
                (expns (out ! i) ''expns_fuel'')
             = sum_axis1 cols_to_correlate (steam_df ! i)"
proof -
  let ?r = "steam_df ! i"
  let ?px = "nonfuel_px (popped steam_df min_capfac) min_corr"
  let ?np = "npx (popped steam_df min_capfac) min_corr"
  let ?out = "map (add_totals ?px ?np) steam_df"
  have out: "consolidate_ferc1_expns steam_df min_capfac min_corr = Inr ?out"
    by (rule consolidate_eq)
  have row: "?out ! i = add_totals ?px ?np ?r"
    using assms(3) by simp
  have "fl_add (sum_axis1 ?px ?r) (sum_axis1 ?np ?r)
      = sum_axis1 (filter (\<lambda>e. e \<noteq> ''expns_fuel'') cols_to_correlate) ?r"
    unfolding sum_axis1_def nonfuel_px_eq npx_eq
    by (rule buckets_partition [OF assms(1) assms(2)])
  then have "fl_add (fl_add (sum_axis1 ?px ?r) (sum_axis1 ?np ?r)) (expns ?r ''expns_fuel'')
      = sum_axis1 cols_to_correlate ?r"
    by (simp add: sum_axis1_all [OF assms(4)])
  then show ?thesis
    using out row by (simp add: add_totals_def)
qed

lemma limit_example_one: "limit_by_capfac (Fin (3/5)) [steam_example_one] = [steam_example_one]"
  by (simp add: limit_by_capfac_def expns_capacity_factor_def steam_example_one_def fl_gt_def)

lemma corrcoef_single: "corrcoef [Fin a] [Fin b] = NaN"
  by (simp add: corrcoef_def np_cov_def np_dot_def np_average_def np_clip_def fl_gt_def fl_sub_def)

lemma corr_example_one: "expns_corr_of [steam_example_one] e = NaN"
  by (simp add: expns_corr_of_def steam_example_one_def fl_ne_def corrcoef_single corrcoef_nil)

lemma buckets_example_one:
  "nonfuel_px (popped [steam_example_one] (Fin (3/5))) mc = []"
  "npx (popped [steam_example_one] (Fin (3/5))) mc = []"
  by (simp_all add: nonfuel_px_eq npx_eq limit_example_one corr_example_one)

text \<open>
  Claim C1 as stated fails: for a table of one plant, every correlation is undefined,
  both buckets are empty, and the three columns add up to 0 while the plant's fifteen
  expense columns add up to 5.
\<close>

theorem consolidate_ferc1_expns_total_counterexample:
  "consolidate_ferc1_expns [steam_example_one] (Fin (3/5)) (Fin (1/2))
     = Inr [add_totals [] [] steam_example_one]
   \<and> fl_add (fl_add (expns_total_nonfuel_production (add_totals [] [] steam_example_one))
               (expns_total_nonproduction (add_totals [] [] steam_example_one)))
        (expns (add_totals [] [] steam_example_one) ''expns_fuel'') = Fin 0
   \<and> sum_axis1 cols_to_correlate steam_example_one = Fin 5"
proof -
  have "consolidate_ferc1_expns [steam_example_one] (Fin (3/5)) (Fin (1/2))
     = Inr [add_totals [] [] steam_example_one]"
    by (simp add: consolidate_eq buckets_example_one)
  moreover have "sum_axis1 cols_to_correlate steam_example_one = Fin 5"
    by (simp add: sum_axis1_def sum_skipna_def cols_to_correlate_def steam_example_one_def)
  moreover have "fl_add (fl_add (expns_total_nonfuel_production (add_totals [] [] steam_example_one))
               (expns_total_nonproduction (add_totals [] [] steam_example_one)))
        (expns (add_totals [] [] steam_example_one) ''expns_fuel'') = Fin 0"
    by (simp add: add_totals_def sum_axis1_def sum_skipna_def steam_example_one_def)
  ultimately show ?thesis by simp
qed

lemma limit_example_two: "limit_by_capfac (Fin (3/5)) steam_example_two = steam_example_two"
  by (simp add: limit_by_capfac_def expns_capacity_factor_def steam_example_two_def fl_gt_def)

lemma corrcoef_example_two: "corrcoef [Fin 1, Fin 3] [Fin 1, Fin 3] = Fin 1"
  by (simp add: corrcoef_def np_cov_def np_dot_def np_average_def np_clip_def fl_gt_def fl_sub_def)

lemma corr_example_two: "expns_corr_of steam_example_two e = Fin 1"
  by (simp add: expns_corr_of_def steam_example_two_def fl_ne_def corrcoef_example_two)

text \<open>The hypotheses of C1 hold for the table of two plants, at the default thresholds.\<close>

theorem consolidate_ferc1_expns_total_witness:
  "Fin (1/2) \<noteq> NaN
   \<and> list_all (\<lambda>e. expns_corr_of (limit_by_capfac (Fin (3/5)) steam_example_two) e \<noteq> NaN)
           (filter (\<lambda>e. e \<noteq> ''expns_fuel'') cols_to_correlate)
   \<and> 0 < length steam_example_two
   \<and> expns (steam_example_two ! 0) ''expns_fuel'' \<noteq> NaN
   \<and> (\<exists>out. consolidate_ferc1_expns steam_example_two (Fin (3/5)) (Fin (1/2)) = Inr out
           \<and> length out = length steam_example_two
           \<and> fl_add (fl_add (expns_total_nonfuel_production (out ! 0))
                       (expns_total_nonproduction (out ! 0)))
                (expns (out ! 0) ''expns_fuel'')
             = sum_axis1 cols_to_correlate (steam_example_two ! 0))"
proof -
  have h1: "Fin (1/2) \<noteq> NaN" by simp
  have h2: "list_all (\<lambda>e. expns_corr_of (limit_by_capfac (Fin (3/5)) steam_example_two) e \<noteq> NaN)
           (filter (\<lambda>e. e \<noteq> ''expns_fuel'') cols_to_correlate)"
    by (simp add: limit_example_two corr_example_two list_all_iff)
  have h3: "0 < length steam_example_two" by (simp add: steam_example_two_def)
  have h4: "expns (steam_example_two ! 0) ''expns_fuel'' \<noteq> NaN"
    by (simp add: steam_example_two_def)
  show ?thesis
    using h1 h2 h3 h4 consolidate_ferc1_expns_total [OF h1 h2 h3 h4] by blast
qed


lemma expns_corr_of_no_nonzero:
  assumes "list_all (\<lambda>r. \<not> fl_ne (expns r e) (Fin 0)) df"
  shows "expns_corr_of df e = NaN"
proof -
  have "filter (\<lambda>r. fl_ne (expns r e) (Fin 0)) df = []"
    using assms by (simp add: list_all_iff filter_empty_conv)
  then show ?thesis by (simp add: expns_corr_of_def corrcoef_nil)
qed

lemma map_of_ferc1_expns_corr:
  "e \<in> set cols_to_correlate \<Longrightarrow>
   map_of (ferc1_expns_corr df mcf) e = Some (expns_corr_of (limit_by_capfac mcf df) e)"
  by (simp add: ferc1_expns_corr_def map_of_map_restrict)

text \<open>
  Claim C6.  An expense category \<open>e\<close> without a non-zero value among the rows that pass the
  capacity-factor filter has the correlation NaN, and \<^verbatim>\<open>consolidate_ferc1_expns\<close> returns
  (it raises nothing) a table with one row for each row of its input, in which
  \<^verbatim>\<open>expns_total_nonfuel_production\<close> is the sum (missing values skipped) of the row's
  values in the categories other than \<open>e\<close> and \<^verbatim>\<open>expns_fuel\<close> whose correlation is at
  least \<^verbatim>\<open>min_corr\<close>, \<^verbatim>\<open>expns_total_nonproduction\<close> is the sum of its values in the
  categories other than \<open>e\<close> and \<^verbatim>\<open>expns_fuel\<close> whose correlation is below \<^verbatim>\<open>min_corr\<close>, and
  the column \<open>e\<close> is as it was in the input.
\<close>

theorem undefined_correlation_in_no_bucket:
  assumes "e \<in> set cols_to_correlate"
    and "list_all (\<lambda>r. \<not> fl_ne (expns r e) (Fin 0)) (limit_by_capfac min_capfac steam_df)"
  shows "map_of (ferc1_expns_corr steam_df min_capfac) e = Some NaN
    \<and> (\<exists>out. consolidate_ferc1_expns steam_df min_capfac min_corr = Inr out
         \<and> length out = length steam_df
         \<and> (\<forall>i<length steam_df.
              expns_total_nonfuel_production (out ! i)
                = sum_skipna (map (expns (steam_df ! i))
                    (filter (\<lambda>k. k \<noteq> e \<and> k \<noteq> ''expns_fuel''
                         \<and> fl_ge (expns_corr_of (limit_by_capfac min_capfac steam_df) k) min_corr)
                       cols_to_correlate))
            \<and> expns_total_nonproduction (out ! i)
                = sum_skipna (map (expns (steam_df ! i))
                    (filter (\<lambda>k. k \<noteq> e \<and> k \<noteq> ''expns_fuel''
                         \<and> fl_lt (expns_corr_of (limit_by_capfac min_capfac steam_df) k) min_corr)
                       cols_to_correlate))
            \<and> expns (out ! i) e = expns (steam_df ! i) e))"
proof -
  let ?d = "popped steam_df min_capfac"
  let ?c = "expns_corr_of (limit_by_capfac min_capfac steam_df)"
  let ?out = "map (add_totals (nonfuel_px ?d min_corr) (npx ?d min_corr)) steam_df"
  have nan: "?c e = NaN"
    by (rule expns_corr_of_no_nonzero [OF assms(2)])
  have 1: "map_of (ferc1_expns_corr steam_df min_capfac) e = Some NaN"
    using map_of_ferc1_expns_corr [OF assms(1)] nan by simp
  have px: "nonfuel_px ?d min_corr
      = filter (\<lambda>k. k \<noteq> e \<and> k \<noteq> ''expns_fuel'' \<and> fl_ge (?c k) min_corr) cols_to_correlate"
    unfolding nonfuel_px_eq filter_filter using nan by (intro filter_cong refl) auto
  have np: "npx ?d min_corr
      = filter (\<lambda>k. k \<noteq> e \<and> k \<noteq> ''expns_fuel'' \<and> fl_lt (?c k) min_corr) cols_to_correlate"
    unfolding npx_eq filter_filter using nan by (intro filter_cong refl) auto
  have 2: "consolidate_ferc1_expns steam_df min_capfac min_corr = Inr ?out"
    by (rule consolidate_eq)
  have 3: "length ?out = length steam_df"
    by simp
  have 4: "expns_total_nonfuel_production (?out ! i)
        = sum_skipna (map (expns (steam_df ! i))
            (filter (\<lambda>k. k \<noteq> e \<and> k \<noteq> ''expns_fuel'' \<and> fl_ge (?c k) min_corr) cols_to_correlate))"
    "expns_total_nonproduction (?out ! i)
        = sum_skipna (map (expns (steam_df ! i))
            (filter (\<lambda>k. k \<noteq> e \<and> k \<noteq> ''expns_fuel'' \<and> fl_lt (?c k) min_corr) cols_to_correlate))"
    "expns (?out ! i) e = expns (steam_df ! i) e"
    if "i < length steam_df" for i
    using that by (simp_all only: nth_map px [symmetric] np [symmetric])
      (simp_all add: add_totals_def sum_axis1_def)
  show ?thesis
    apply (rule conjI [OF 1])
    apply (rule exI [where x = ?out])
    apply (rule conjI [OF 2])
    apply (rule conjI [OF 3])
    using 4 apply blast
    done
qed

lemma limit_example_idle:
  "limit_by_capfac (Fin (3/5)) steam_example_idle = [steam_example_idle ! 0]"
  by (simp add: limit_by_capfac_def expns_capacity_factor_def steam_example_idle_def fl_gt_def)

text \<open>The hypotheses of C6 hold for \<^verbatim>\<open>expns_coolants\<close> in the table whose second plant, the
  only one to report coolants, does not pass the filter.\<close>

theorem undefined_correlation_in_no_bucket_witness:
  "''expns_coolants'' \<in> set cols_to_correlate
   \<and> list_all (\<lambda>r. \<not> fl_ne (expns r ''expns_coolants'') (Fin 0))
        (limit_by_capfac (Fin (3/5)) steam_example_idle)
   \<and> map_of (ferc1_expns_corr steam_example_idle (Fin (3/5))) ''expns_coolants'' = Some NaN
    \<and> (\<exists>out. consolidate_ferc1_expns steam_example_idle (Fin (3/5)) (Fin (1/2)) = Inr out
         \<and> length out = length steam_example_idle
         \<and> (\<forall>i<length steam_example_idle.
              expns_total_nonfuel_production (out ! i)
                = sum_skipna (map (expns (steam_example_idle ! i))
                    (filter (\<lambda>k. k \<noteq> ''expns_coolants'' \<and> k \<noteq> ''expns_fuel''
                         \<and> fl_ge (expns_corr_of (limit_by_capfac (Fin (3/5)) steam_example_idle) k) (Fin (1/2)))
                       cols_to_correlate))
            \<and> expns_total_nonproduction (out ! i)
                = sum_skipna (map (expns (steam_example_idle ! i))
                    (filter (\<lambda>k. k \<noteq> ''expns_coolants'' \<and> k \<noteq> ''expns_fuel''
                         \<and> fl_lt (expns_corr_of (limit_by_capfac (Fin (3/5)) steam_example_idle) k) (Fin (1/2)))
                       cols_to_correlate))
            \<and> expns (out ! i) ''expns_coolants'' = expns (steam_example_idle ! i) ''expns_coolants''))"
proof -
  have h1: "''expns_coolants'' \<in> set cols_to_correlate"
    by (simp add: cols_to_correlate_def)
  have h2: "list_all (\<lambda>r. \<not> fl_ne (expns r ''expns_coolants'') (Fin 0))
        (limit_by_capfac (Fin (3/5)) steam_example_idle)"
    by (simp only: limit_example_idle) (simp add: steam_example_idle_def fl_ne_def)
  show ?thesis
    by (rule conjI [OF h1], rule conjI [OF h2],
        rule undefined_correlation_in_no_bucket [OF h1 h2])
qed

text \<open>
  Claim C2 does not hold of the code.  Line 329 computes net generation divided by
  8760, times the capacity, where \<^verbatim>\<open>capacity_factor\<close> (lines 213-215) divides net
  generation by the capacity times 8760.  Of the two example plants the filter keeps
  the one whose capacity factor is 0.5 and drops the one whose capacity factor is 0.7.
\<close>

theorem ferc1_expns_corr_capacity_factor_divergence:
  "limit_by_capfac (Fin (3/5)) steam_example_capfac = [steam_example_capfac ! 0]
   \<and> map (\<lambda>r. capacity_factor_value (net_generation_mwh r) (total_capacity_mw r)) steam_example_capfac
       = [Fin (1/2), Fin (7/10)]
   \<and> filter (\<lambda>r. fl_gt (capacity_factor_value (net_generation_mwh r) (total_capacity_mw r)) (Fin (3/5)))
        steam_example_capfac = [steam_example_capfac ! 1]"
  by (simp add: limit_by_capfac_def expns_capacity_factor_def steam_example_capfac_def fl_gt_def
      capacity_factor_value_def)

section \<open>Properties of \<^verbatim>\<open>capacity_factor\<close>\<close>















section \<open>Properties of \<^verbatim>\<open>yearly_sum_eia\<close>, and the arguments after a call\<close>


text \<open>
  Claim C8 does not hold of the code.  With the default grouping columns the year that
  line 200 computes is not among the keys: the records of generator A of plant 1 for
  2015 (100 MWh) and for 2016 (150 MWh) end in one row, with the sum 250.
\<close>

theorem yearly_sum_eia_ignores_year:
  "(case fst (yearly_sum_eia gen_example ''net_generation_mwh'' yearly_sum_eia_default_columns) of
      Inr out \<Rightarrow> columns out = [''plant_id_eia'', ''generator_id'', ''net_generation_mwh'']
        \<and> map (\<lambda>r. map r (columns out)) (rows out) = [[CInt 1, CStr ''A'', CFlt (Fin 250)]]
    | Inl e \<Rightarrow> False)"
  apply (simp add: yearly_sum_eia_def gen_example_def yearly_sum_eia_default_columns_def
      row_of_Cons row_of_Nil null_row_def)
  apply (simp add: groupby_sum_def assign_column_def Let_def cell_sum_def sum_skipna_def)
  apply (simp add: row_of_def)
  done

text \<open>The example of the specification holds: two records of one generator in one
  year, of 100 and 150 MWh, end in one row with the sum 250.\<close>

theorem yearly_sum_eia_same_year:
  "(case fst (yearly_sum_eia gen_example_same_year ''net_generation_mwh''
               yearly_sum_eia_default_columns) of
      Inr out \<Rightarrow> columns out = [''plant_id_eia'', ''generator_id'', ''net_generation_mwh'']
        \<and> map (\<lambda>r. map r (columns out)) (rows out) = [[CInt 1, CStr ''A'', CFlt (Fin 250)]]
    | Inl e \<Rightarrow> False)"
  apply (simp add: yearly_sum_eia_def gen_example_same_year_def yearly_sum_eia_default_columns_def
      row_of_Cons row_of_Nil null_row_def)
  apply (simp add: groupby_sum_def assign_column_def Let_def cell_sum_def sum_skipna_def)
  apply (simp add: row_of_def)
  done

lemma yearly_sum_eia_state:
  assumes "''report_date'' \<in> set (columns df)"
    and "list_all (\<lambda>r. is_datelike (r ''report_date'')) (rows df)"
  shows "snd (yearly_sum_eia df sum_by cols)
         = assign_column ''report_year'' (\<lambda>r. year_of (r ''report_date'')) df"
  using assms by (simp add: yearly_sum_eia_def Let_def)

lemma assign_column_new:
  "c \<notin> set (columns df) \<Longrightarrow> assign_column c f df \<noteq> df"
proof
  assume a: "c \<notin> set (columns df)" and e: "assign_column c f df = df"
  have "columns (assign_column c f df) = columns df @ [c]"
    using a by (simp add: assign_column_def)
  with e show False by simp
qed

lemma merge_on_date_year_state:
  assumes "date_col \<in> set (columns df_date)" and "year_col \<in> set (columns df_year)"
    and "list_all (\<lambda>r. is_datelike (r year_col)) (rows df_year)"
    and "list_all (\<lambda>r. is_datelike (r date_col)) (rows df_date)"
    and "infer_freq_is_AS_JAN (map (\<lambda>r. r year_col) (rows df_year)) = Inr True"
  shows "snd (merge_on_date_year df_date df_year on hw date_col year_col)
         = (assign_column ''year_temp'' (\<lambda>r. year_of (r date_col)) df_date,
            assign_column ''year_temp'' (\<lambda>r. year_of (r year_col)) df_year)"
proof -
  have "drop_columns [year_col] (assign_column ''year_temp'' (\<lambda>r. year_of (r year_col)) df_year)
      \<noteq> Inl e" for e
    using assms(2) by (simp add: drop_columns_def assign_column_def)
  then show ?thesis
    using assms
    by (simp add: merge_on_date_year_def Let_def split: sum.splits bool.splits)
qed

section \<open>Properties of \<^verbatim>\<open>merge_on_date_year\<close>\<close>




































lemma set_columns_assign: "set (columns (assign_column k f df)) = insert k (set (columns df))"
  by (auto simp: assign_column_def)

lemma rows_assign_column: "rows (assign_column k f df) = map (\<lambda>r. r(k := f r)) (rows df)"
  by (simp add: assign_column_def)



lemma annual_example_freq:
  "infer_freq_is_AS_JAN (map (\<lambda>r. r ''report_date'') (rows annual_example)) = Inr True"
  by (simp add: infer_freq_is_AS_JAN_def annual_example_def row_of_Cons row_of_Nil)






section \<open>The caller's frames after a call\<close>

lemma map_fixed: "map g xs = xs \<longleftrightarrow> (\<forall>x\<in>set xs. g x = x)"
  by (induction xs) auto

lemma assign_column_same:
  "assign_column c f df = df \<longleftrightarrow> c \<in> set (columns df) \<and> (\<forall>r\<in>set (rows df). r c = f r)"
proof
  assume e: "assign_column c f df = df"
  have c: "c \<in> set (columns df)"
    using e assign_column_new [of c df f] by blast
  have "rows (assign_column c f df) = rows df"
    using e by simp
  then have "\<forall>r\<in>set (rows df). r(c := f r) = r"
    by (simp add: rows_assign_column map_fixed)
  then have "\<forall>r\<in>set (rows df). r c = f r"
    by (metis fun_upd_same)
  with c show "c \<in> set (columns df) \<and> (\<forall>r\<in>set (rows df). r c = f r)"
    by blast
next
  assume a: "c \<in> set (columns df) \<and> (\<forall>r\<in>set (rows df). r c = f r)"
  then have "map (\<lambda>r. r(c := f r)) (rows df) = rows df"
    by (simp add: map_fixed)
  then show "assign_column c f df = df"
    using a by (simp add: assign_column_def)
qed

lemma annual_example_after_call_freq:
  "infer_freq_is_AS_JAN (map (\<lambda>r. r ''report_date'') (rows annual_example_after_call)) = Inr True"
  by (simp add: infer_freq_is_AS_JAN_def annual_example_after_call_def row_of_Cons row_of_Nil)

lemma yearly_sum_eia_second_call_state: "snd (yearly_sum_eia gen_example_after_call ''net_generation_mwh'' yearly_sum_eia_default_columns)
     = gen_example_after_call"
proof -
  have "snd (yearly_sum_eia gen_example_after_call ''net_generation_mwh'' yearly_sum_eia_default_columns)
     = assign_column ''report_year'' (\<lambda>r. year_of (r ''report_date'')) gen_example_after_call"
    by (rule yearly_sum_eia_state) (simp_all add: gen_example_after_call_def row_of_Cons row_of_Nil)
  also have "\<dots> = gen_example_after_call"
    unfolding assign_column_same by (simp add: gen_example_after_call_def row_of_Cons row_of_Nil)
  finally show ?thesis .
qed

lemma yearly_sum_eia_second_call_result: "(case fst (yearly_sum_eia gen_example_after_call ''net_generation_mwh'' yearly_sum_eia_default_columns) of
      Inr out \<Rightarrow> columns out = [''plant_id_eia'', ''generator_id'', ''net_generation_mwh'']
         \<and> map (\<lambda>r. map r (columns out)) (rows out) = [[CInt 1, CStr ''A'', CFlt (Fin 250)]]
    | Inl e \<Rightarrow> False)"
  apply (simp add: yearly_sum_eia_def yearly_sum_eia_default_columns_def)
  apply (simp add: gen_example_after_call_def row_of_Cons row_of_Nil)
  apply (simp add: groupby_sum_def assign_column_def Let_def cell_sum_def sum_skipna_def row_of_Cons row_of_Nil)
  done

lemma merge_on_date_year_second_call_state: "snd (merge_on_date_year late_example_after_call annual_example_after_call [''plant_id_eia''] Inner
        ''report_date'' ''report_date'') = (late_example_after_call, annual_example_after_call)"
proof -
  have "snd (merge_on_date_year late_example_after_call annual_example_after_call [''plant_id_eia''] Inner
        ''report_date'' ''report_date'')
     = (assign_column ''year_temp'' (\<lambda>r. year_of (r ''report_date'')) late_example_after_call,
        assign_column ''year_temp'' (\<lambda>r. year_of (r ''report_date'')) annual_example_after_call)"
    by (rule merge_on_date_year_state [OF _ _ _ _ annual_example_after_call_freq])
      (simp_all add: late_example_after_call_def annual_example_after_call_def row_of_Cons row_of_Nil)
  moreover have "assign_column ''year_temp'' (\<lambda>r. year_of (r ''report_date'')) late_example_after_call
      = late_example_after_call"
    unfolding assign_column_same by (simp add: late_example_after_call_def row_of_Cons row_of_Nil)
  moreover have "assign_column ''year_temp'' (\<lambda>r. year_of (r ''report_date'')) annual_example_after_call
      = annual_example_after_call"
    unfolding assign_column_same by (simp add: annual_example_after_call_def row_of_Cons row_of_Nil)
  ultimately show ?thesis by simp
qed

lemma merge_on_date_year_second_call_result: "(case fst (merge_on_date_year late_example_after_call annual_example_after_call [''plant_id_eia''] Inner
            ''report_date'' ''report_date'') of
      Inr out \<Rightarrow> columns out = [''plant_id_eia'', ''report_date'', ''nameplate_capacity_mw'']
        \<and> map (\<lambda>r. map r (columns out)) (rows out) = [[CInt 1, CDate 2015 6 1, CFlt (Fin 11)]]
    | Inl e \<Rightarrow> False)"
    apply (simp add: merge_on_date_year_def annual_example_after_call_freq)
    apply (simp add: late_example_after_call_def annual_example_after_call_def row_of_Cons row_of_Nil null_row_def
        assign_column_def drop_columns_def select_columns_def Let_def)
    apply (simp add: pd_merge_def merged_columns_def overlap_def suffixed_def)
    apply (simp add: inner_indexers_def right_matches_def keys_match_def
        upt_rec[of 0] upt_rec[of 1] upt_rec[of 2] upt_rec[of 3])
    apply (simp add: merged_row_def put_cols_def overlap_def suffixed_def null_row_def)
    apply (simp add: drop_columns_def)
    done


text \<open>
  Claim C10, as amended.  A call of \<^verbatim>\<open>yearly_sum_eia\<close> on a frame that has a column
  \<^verbatim>\<open>report_date\<close> of dates (or missing dates) leaves the frame with a column
  \<^verbatim>\<open>report_year\<close> that holds the year of each date.  A call of \<^verbatim>\<open>merge_on_date_year\<close>
  whose two date columns hold dates (or missing dates) and which passes its three
  assertions leaves both frames with a column \<^verbatim>\<open>year_temp\<close> that holds the year of the
  frame's date column.  The column is added to a frame that lacks it and overwritten in
  one that has it: the frame is as it was before the call if and only if it had the
  column already, with these very values.
\<close>

theorem arguments_after_call:
  "(''report_date'' \<in> set (columns df) \<and> list_all (\<lambda>r. is_datelike (r ''report_date'')) (rows df)
      \<longrightarrow> snd (yearly_sum_eia df sum_by cols)
            = assign_column ''report_year'' (\<lambda>r. year_of (r ''report_date'')) df
          \<and> ''report_year'' \<in> set (columns (snd (yearly_sum_eia df sum_by cols)))
          \<and> (snd (yearly_sum_eia df sum_by cols) = df
               \<longleftrightarrow> ''report_year'' \<in> set (columns df)
                   \<and> (\<forall>r \<in> set (rows df). r ''report_year'' = year_of (r ''report_date''))))
   \<and> (date_col \<in> set (columns df_date) \<and> year_col \<in> set (columns df_year)
        \<and> list_all (\<lambda>r. is_datelike (r year_col)) (rows df_year)
        \<and> list_all (\<lambda>r. is_datelike (r date_col)) (rows df_date)
        \<and> infer_freq_is_AS_JAN (map (\<lambda>r. r year_col) (rows df_year)) = Inr True
      \<longrightarrow> snd (merge_on_date_year df_date df_year on hw date_col year_col)
            = (assign_column ''year_temp'' (\<lambda>r. year_of (r date_col)) df_date,
               assign_column ''year_temp'' (\<lambda>r. year_of (r year_col)) df_year)
          \<and> ''year_temp'' \<in> set (columns (fst (snd (merge_on_date_year df_date df_year on hw date_col year_col))))
          \<and> ''year_temp'' \<in> set (columns (snd (snd (merge_on_date_year df_date df_year on hw date_col year_col))))
          \<and> (fst (snd (merge_on_date_year df_date df_year on hw date_col year_col)) = df_date
               \<longleftrightarrow> ''year_temp'' \<in> set (columns df_date)
                   \<and> (\<forall>r \<in> set (rows df_date). r ''year_temp'' = year_of (r date_col)))
          \<and> (snd (snd (merge_on_date_year df_date df_year on hw date_col year_col)) = df_year
               \<longleftrightarrow> ''year_temp'' \<in> set (columns df_year)
                   \<and> (\<forall>r \<in> set (rows df_year). r ''year_temp'' = year_of (r year_col))))"
proof (intro conjI impI)
  assume a: "''report_date'' \<in> set (columns df) \<and> list_all (\<lambda>r. is_datelike (r ''report_date'')) (rows df)"
  then show s: "snd (yearly_sum_eia df sum_by cols)
            = assign_column ''report_year'' (\<lambda>r. year_of (r ''report_date'')) df"
    by (simp add: yearly_sum_eia_state)
  show "''report_year'' \<in> set (columns (snd (yearly_sum_eia df sum_by cols)))"
    unfolding s by (simp add: set_columns_assign)
  show "snd (yearly_sum_eia df sum_by cols) = df
      \<longleftrightarrow> ''report_year'' \<in> set (columns df)
          \<and> (\<forall>r \<in> set (rows df). r ''report_year'' = year_of (r ''report_date''))"
    unfolding s by (rule assign_column_same)
next
  assume a: "date_col \<in> set (columns df_date) \<and> year_col \<in> set (columns df_year)
        \<and> list_all (\<lambda>r. is_datelike (r year_col)) (rows df_year)
        \<and> list_all (\<lambda>r. is_datelike (r date_col)) (rows df_date)
        \<and> infer_freq_is_AS_JAN (map (\<lambda>r. r year_col) (rows df_year)) = Inr True"
  then show s: "snd (merge_on_date_year df_date df_year on hw date_col year_col)
            = (assign_column ''year_temp'' (\<lambda>r. year_of (r date_col)) df_date,
               assign_column ''year_temp'' (\<lambda>r. year_of (r year_col)) df_year)"
    by (simp add: merge_on_date_year_state)
  show "''year_temp'' \<in> set (columns (fst (snd (merge_on_date_year df_date df_year on hw date_col year_col))))"
    unfolding s by (simp add: set_columns_assign)
  show "''year_temp'' \<in> set (columns (snd (snd (merge_on_date_year df_date df_year on hw date_col year_col))))"
    unfolding s by (simp add: set_columns_assign)
  show "fst (snd (merge_on_date_year df_date df_year on hw date_col year_col)) = df_date
      \<longleftrightarrow> ''year_temp'' \<in> set (columns df_date)
          \<and> (\<forall>r \<in> set (rows df_date). r ''year_temp'' = year_of (r date_col))"
    unfolding s by (simp add: assign_column_same)
  show "snd (snd (merge_on_date_year df_date df_year on hw date_col year_col)) = df_year
      \<longleftrightarrow> ''year_temp'' \<in> set (columns df_year)
          \<and> (\<forall>r \<in> set (rows df_year). r ''year_temp'' = year_of (r year_col))"
    unfolding s by (simp add: assign_column_same)
qed

text \<open>
  Claim C10 as stated (the inputs are not left unchanged by any call) fails for calls
  that return a table: called a second time on the frames that a first call has left,
  \<^verbatim>\<open>yearly_sum_eia\<close> returns the annual sum and \<^verbatim>\<open>merge_on_date_year\<close> the merged row, and
  each leaves its arguments as they were.
\<close>

theorem arguments_after_call_counterexample:
  "(case fst (yearly_sum_eia gen_example_after_call ''net_generation_mwh'' yearly_sum_eia_default_columns) of
      Inr out \<Rightarrow> columns out = [''plant_id_eia'', ''generator_id'', ''net_generation_mwh'']
         \<and> map (\<lambda>r. map r (columns out)) (rows out) = [[CInt 1, CStr ''A'', CFlt (Fin 250)]]
    | Inl e \<Rightarrow> False)
   \<and> snd (yearly_sum_eia gen_example_after_call ''net_generation_mwh'' yearly_sum_eia_default_columns)
     = gen_example_after_call
   \<and> (case fst (merge_on_date_year late_example_after_call annual_example_after_call [''plant_id_eia''] Inner
            ''report_date'' ''report_date'') of
      Inr out \<Rightarrow> columns out = [''plant_id_eia'', ''report_date'', ''nameplate_capacity_mw'']
        \<and> map (\<lambda>r. map r (columns out)) (rows out) = [[CInt 1, CDate 2015 6 1, CFlt (Fin 11)]]
    | Inl e \<Rightarrow> False)
   \<and> snd (merge_on_date_year late_example_after_call annual_example_after_call [''plant_id_eia''] Inner
        ''report_date'' ''report_date'') = (late_example_after_call, annual_example_after_call)"
  apply (rule conjI [OF yearly_sum_eia_second_call_result])
  apply (rule conjI [OF yearly_sum_eia_second_call_state])
  apply (rule conjI [OF merge_on_date_year_second_call_result])
  apply (rule merge_on_date_year_second_call_state)
  done

text \<open>The hypotheses of C10 hold for the example frames, none of which has the new
  column before the call.\<close>

theorem arguments_after_call_witness:
  "(''report_date'' \<in> set (columns gen_example) \<and> list_all (\<lambda>r. is_datelike (r ''report_date'')) (rows gen_example))
   \<and> (snd (yearly_sum_eia gen_example ''net_generation_mwh'' yearly_sum_eia_default_columns)
            = assign_column ''report_year'' (\<lambda>r. year_of (r ''report_date'')) gen_example
          \<and> ''report_year'' \<in> set (columns (snd (yearly_sum_eia gen_example ''net_generation_mwh'' yearly_sum_eia_default_columns)))
          \<and> (snd (yearly_sum_eia gen_example ''net_generation_mwh'' yearly_sum_eia_default_columns) = gen_example
               \<longleftrightarrow> ''report_year'' \<in> set (columns gen_example)
                   \<and> (\<forall>r \<in> set (rows gen_example). r ''report_year'' = year_of (r ''report_date''))))
   \<and> (''report_date'' \<in> set (columns gen_example) \<and> ''report_date'' \<in> set (columns annual_example)
        \<and> list_all (\<lambda>r. is_datelike (r ''report_date'')) (rows annual_example)
        \<and> list_all (\<lambda>r. is_datelike (r ''report_date'')) (rows gen_example)
        \<and> infer_freq_is_AS_JAN (map (\<lambda>r. r ''report_date'') (rows annual_example)) = Inr True)
   \<and> (snd (merge_on_date_year gen_example annual_example [''plant_id_eia''] Inner ''report_date'' ''report_date'')
            = (assign_column ''year_temp'' (\<lambda>r. year_of (r ''report_date'')) gen_example,
               assign_column ''year_temp'' (\<lambda>r. year_of (r ''report_date'')) annual_example)
          \<and> ''year_temp'' \<in> set (columns (fst (snd (merge_on_date_year gen_example annual_example [''plant_id_eia''] Inner ''report_date'' ''report_date''))))
          \<and> ''year_temp'' \<in> set (columns (snd (snd (merge_on_date_year gen_example annual_example [''plant_id_eia''] Inner ''report_date'' ''report_date''))))
          \<and> (fst (snd (merge_on_date_year gen_example annual_example [''plant_id_eia''] Inner ''report_date'' ''report_date'')) = gen_example
               \<longleftrightarrow> ''year_temp'' \<in> set (columns gen_example)
                   \<and> (\<forall>r \<in> set (rows gen_example). r ''year_temp'' = year_of (r ''report_date'')))
          \<and> (snd (snd (merge_on_date_year gen_example annual_example [''plant_id_eia''] Inner ''report_date'' ''report_date'')) = annual_example
               \<longleftrightarrow> ''year_temp'' \<in> set (columns annual_example)
                   \<and> (\<forall>r \<in> set (rows annual_example). r ''year_temp'' = year_of (r ''report_date''))))"
proof -
  have h1: "''report_date'' \<in> set (columns gen_example) \<and> list_all (\<lambda>r. is_datelike (r ''report_date'')) (rows gen_example)"
    by (simp add: gen_example_def row_of_Cons row_of_Nil)
  have h3: "''report_date'' \<in> set (columns gen_example) \<and> ''report_date'' \<in> set (columns annual_example)
        \<and> list_all (\<lambda>r. is_datelike (r ''report_date'')) (rows annual_example)
        \<and> list_all (\<lambda>r. is_datelike (r ''report_date'')) (rows gen_example)
        \<and> infer_freq_is_AS_JAN (map (\<lambda>r. r ''report_date'') (rows annual_example)) = Inr True"
    by (simp add: annual_example_freq) (simp add: gen_example_def annual_example_def row_of_Cons row_of_Nil)
  note t = arguments_after_call [of gen_example "''net_generation_mwh''" yearly_sum_eia_default_columns
      "''report_date''" gen_example "''report_date''" annual_example "[''plant_id_eia'']" Inner]
  note a = t [THEN conjunct1, THEN mp, OF h1]
  note b = t [THEN conjunct2, THEN mp, OF h3]
  show ?thesis
    by (rule conjI [OF h1], rule conjI [OF a], rule conjI [OF h3], rule b)
qed

section \<open>Properties of the fuel-mix proportions\<close>


subsection \<open>Sums of finite values\<close>

lemma sum_skipna_finite:
  "list_all finite_or_nan cells \<Longrightarrow> sum_skipna cells = Fin (sum_list (map fl_val cells))"
  by (induction cells) (auto simp: sum_skipna_def finite_or_nan_def)

lemma fl_sum_scaled:
  "list_all finite_or_nan cells \<Longrightarrow> t \<noteq> 0 \<Longrightarrow>
   fl_sum (map (\<lambda>v. fl_div (fillna0 v) (Fin t)) cells) = Fin (sum_list (map fl_val cells) / t)"
  by (induction cells) (auto simp: finite_or_nan_def fillna0_def add_divide_distrib)

lemma shares_sum_one:
  assumes "list_all finite_or_nan cells" and "sum_skipna cells \<noteq> Fin 0"
  shows "fl_sum (map (\<lambda>v. fl_div (fillna0 v) (fillna0 (sum_skipna cells))) cells) = Fin 1"
proof -
  let ?t = "sum_list (map fl_val cells)"
  have t: "sum_skipna cells = Fin ?t" by (rule sum_skipna_finite [OF assms(1)])
  with assms(2) have nz: "?t \<noteq> 0" by simp
  have f: "fillna0 (Fin ?t) = Fin ?t" by (simp add: fillna0_def)
  show ?thesis
    unfolding t f fl_sum_scaled [OF assms(1) nz] using nz by simp
qed

lemma shares_all_nan:
  assumes "list_all (\<lambda>v. v = NaN \<or> v = Fin 0) cells"
  shows "list_all (\<lambda>s. s = NaN) (map (\<lambda>v. fl_div (fillna0 v) (fillna0 (sum_skipna cells))) cells)"
proof -
  have f: "list_all finite_or_nan cells"
    using assms by (auto simp: list_all_iff finite_or_nan_def)
  have "sum_list (map fl_val cells) = 0"
    using assms by (induction cells) auto
  then have "sum_skipna cells = Fin 0"
    by (simp add: sum_skipna_finite [OF f])
  then show ?thesis
    using assms by (auto simp: list_all_iff fillna0_def)
qed

lemma nonneg_total_nonzero:
  assumes "list_all (\<lambda>v. v = NaN \<or> (\<exists>a. v = Fin a \<and> 0 \<le> a)) cells"
    and "list_ex (\<lambda>v. v \<noteq> NaN \<and> v \<noteq> Fin 0) cells"
  shows "sum_skipna cells \<noteq> Fin 0"
proof -
  have f: "list_all finite_or_nan cells"
    using assms(1) by (auto simp: list_all_iff finite_or_nan_def)
  have nn: "\<forall>v \<in> set cells. 0 \<le> fl_val v"
    using assms(1) by (auto simp: list_all_iff)
  obtain v where v: "v \<in> set cells" "v \<noteq> NaN" "v \<noteq> Fin 0"
    using assms(2) by (auto simp: list_ex_iff)
  then have "0 < fl_val v"
    using assms(1) by (auto simp: list_all_iff)
  moreover have "fl_val v \<le> sum_list (map fl_val cells)"
    using v(1) nn by (intro member_le_sum_list) auto
  ultimately have "sum_list (map fl_val cells) \<noteq> 0" by linarith
  then show ?thesis by (simp add: sum_skipna_finite [OF f])
qed

subsection \<open>The pivot and the frame\<close>

lemma distinct_pcols: "distinct (pcols (pivot_table recs))"
  by (simp add: pivot_table_def Let_def)

lemma length_prow:
  "kc \<in> set (prows (pivot_table recs)) \<Longrightarrow> length (snd kc) = length (pcols (pivot_table recs))"
  by (auto simp: pivot_table_def Let_def)

lemma fuel_shares_no_total:
  assumes "''total'' \<notin> set cols" and "length cells = length cols"
  shows "share_columns cols = cols"
    and "fuel_shares cols cells = map (\<lambda>v. fl_div (fillna0 v) (fillna0 (sum_skipna cells))) cells"
proof -
  show "share_columns cols = cols"
    using assms(1) by (auto simp: share_columns_def filter_id_conv)
  have "filter (\<lambda>cv. fst cv \<noteq> ''total'') (zip cols cells) = zip cols cells"
    using assms(1) by (auto simp: filter_id_conv dest: set_zip_leftD)
  moreover have "map (\<lambda>cv. g (snd cv)) (zip cols cells) = map g cells" for g :: "fl \<Rightarrow> fl"
  proof -
    have "map (\<lambda>cv. g (snd cv)) (zip cols cells) = map g (map snd (zip cols cells))"
      by (simp add: comp_def)
    then show ?thesis using assms(2) by (simp only: map_snd_zip)
  qed
  ultimately show "fuel_shares cols cells
      = map (\<lambda>v. fl_div (fillna0 v) (fillna0 (sum_skipna cells))) cells"
    by (simp only: fuel_shares_def)
qed

lemma row_of_skip:
  "length ns = length vs \<Longrightarrow> c \<notin> set ns \<Longrightarrow> row_of (ns @ cs) (vs @ ws) c = row_of cs ws c"
  by (induction ns vs rule: list_induct2) (auto simp: row_of_def)

lemma row_of_hit:
  "distinct cs \<Longrightarrow> length cs = length ws \<Longrightarrow> i < length cs \<Longrightarrow>
   row_of (cs @ es) (ws @ xs) (cs ! i) = ws ! i"
proof (induction cs ws arbitrary: i rule: list_induct2')
  case (4 c cs w ws)
  then show ?case
    by (cases i) (auto simp: row_of_def)
qed auto

lemma map_row_of:
  assumes "distinct cs" "length cs = length ws" "length ns = length vs" "set cs \<inter> set ns = {}"
  shows "map (row_of (ns @ cs @ es) (vs @ ws @ xs)) cs = ws"
proof (rule nth_equalityI)
  show "length (map (row_of (ns @ cs @ es) (vs @ ws @ xs)) cs) = length ws"
    using assms(2) by simp
  fix i assume "i < length (map (row_of (ns @ cs @ es) (vs @ ws @ xs)) cs)"
  then have i: "i < length cs" by simp
  then have "cs ! i \<notin> set ns" using assms(4) by (meson disjoint_iff nth_mem)
  then have "row_of (ns @ cs @ es) (vs @ ws @ xs) (cs ! i) = row_of (cs @ es) (ws @ xs) (cs ! i)"
    by (rule row_of_skip [OF assms(3)])
  also have "\<dots> = ws ! i" by (rule row_of_hit [OF assms(1,2) i])
  finally show "map (row_of (ns @ cs @ es) (vs @ ws @ xs)) cs ! i = ws ! i"
    using i by simp
qed

lemma proportions_frame_rows:
  assumes ok: "proportions_frame names key_cells wt (pivot_table recs) = Inr out"
    and kl: "\<And>k. length (key_cells k) = length names"
    and nt: "''total'' \<notin> set (pcols (pivot_table recs))"
    and i: "i < length (prows (pivot_table recs))"
  shows "length (rows out) = length (prows (pivot_table recs))"
    and "map (\<lambda>c. cell_fl ((rows out ! i) c)) (share_columns (pcols (pivot_table recs)))
         = map (\<lambda>v. fl_div (fillna0 v) (fillna0 (sum_skipna (snd (prows (pivot_table recs) ! i)))))
             (snd (prows (pivot_table recs) ! i))"
proof -
  let ?pv = "pivot_table recs"
  let ?cells = "snd (prows ?pv ! i)"
  let ?ex = "if wt then [''total_mmbtu''] else []"
  let ?exv = "if wt then [CFlt (sum_skipna ?cells)] else []"
  have len: "length ?cells = length (pcols ?pv)"
    using i by (intro length_prow) simp
  note st = fuel_shares_no_total [OF nt len]
  have disj: "set (pcols ?pv) \<inter> set names = {}"
    using ok by (auto simp: proportions_frame_def st list_ex_iff split: if_splits)
  have out: "out = \<lparr>columns = names @ pcols ?pv @ ?ex,
         rows = map (\<lambda>kc. row_of (names @ pcols ?pv @ (if wt then [''total_mmbtu''] else []))
                       (key_cells (fst kc) @ map CFlt (fuel_shares (pcols ?pv) (snd kc))
                          @ (if wt then [CFlt (sum_skipna (snd kc))] else [])))
                  (prows ?pv)\<rparr>"
    using ok by (simp add: proportions_frame_def st split: if_splits)
  show "length (rows out) = length (prows ?pv)"
    by (simp add: out)
  have row: "rows out ! i = row_of (names @ pcols ?pv @ ?ex)
                       (key_cells (fst (prows ?pv ! i)) @ map CFlt (fuel_shares (pcols ?pv) ?cells) @ ?exv)"
    using i by (simp add: out)
  have "map (rows out ! i) (pcols ?pv) = map CFlt (fuel_shares (pcols ?pv) ?cells)"
    unfolding row
    by (rule map_row_of [OF distinct_pcols _ kl [symmetric] disj]) (simp add: st len)
  then have "map cell_fl (map (rows out ! i) (pcols ?pv))
      = map cell_fl (map CFlt (fuel_shares (pcols ?pv) ?cells))"
    by (rule arg_cong)
  then have "map (\<lambda>c. cell_fl ((rows out ! i) c)) (pcols ?pv) = fuel_shares (pcols ?pv) ?cells"
    by (simp add: comp_def)
  then show "map (\<lambda>c. cell_fl ((rows out ! i) c)) (share_columns (pcols ?pv))
         = map (\<lambda>v. fl_div (fillna0 v) (fillna0 (sum_skipna ?cells))) ?cells"
    by (simp add: st)
qed



lemma proportions_frame_as_amended:
  assumes ok: "proportions_frame names key_cells wt (pivot_table recs) = Inr out"
    and kl: "\<And>k. length (key_cells k) = length names"
    and nt: "''total'' \<notin> set (pcols (pivot_table recs))"
  shows "proportions_as_amended (pivot_table recs) out"
proof (intro conjI allI impI)
  show "length (rows out) = length (prows (pivot_table recs))"
    by (cases "prows (pivot_table recs)")
       (use ok in \<open>auto simp: proportions_frame_def split: if_splits\<close>)
next
  fix i assume i: "i < length (prows (pivot_table recs))"
  let ?cells = "snd (prows (pivot_table recs) ! i)"
  note eq = proportions_frame_rows(2) [OF ok kl nt i]
  {
    assume "list_all finite_or_nan ?cells" "sum_skipna ?cells \<noteq> Fin 0"
    then show "fl_sum (map (\<lambda>c. cell_fl ((rows out ! i) c)) (share_columns (pcols (pivot_table recs)))) = Fin 1"
      unfolding eq by (rule shares_sum_one)
  next
    assume f: "list_all finite_or_nan ?cells"
      and "list_all (\<lambda>v. v = NaN \<or> (\<exists>a. v = Fin a \<and> 0 \<le> a)) ?cells
             \<and> list_ex (\<lambda>v. v \<noteq> NaN \<and> v \<noteq> Fin 0) ?cells"
    then have "sum_skipna ?cells \<noteq> Fin 0"
      using nonneg_total_nonzero by blast
    with f show "fl_sum (map (\<lambda>c. cell_fl ((rows out ! i) c)) (share_columns (pcols (pivot_table recs)))) = Fin 1"
      unfolding eq by (rule shares_sum_one)
  next
    assume "list_all (\<lambda>v. v = NaN \<or> v = Fin 0) ?cells"
    then show "list_all (\<lambda>s. s = NaN)
               (map (\<lambda>c. cell_fl ((rows out ! i) c)) (share_columns (pcols (pivot_table recs))))"
      unfolding eq by (rule shares_all_nan)
  }
qed

text \<open>
  Claim C4, as amended.  For each of the three \<^verbatim>\<open>plant_fuel_proportions_*\<close> functions,
  when it returns (and no fuel is called \<^verbatim>\<open>total\<close>), the frame of shares stands to the
  pivot of heat contents as described above: for a plant and year whose total heat
  content is not zero the shares add up to 1; when every heat content is zero or
  missing, every share is NaN.
\<close>

theorem plant_fuel_proportions_shares:
  "(plant_fuel_proportions_ferc1 fuel_df = Inr out1
      \<and> ''total'' \<notin> set (pcols (heat_pivot_ferc1 fuel_df))
      \<longrightarrow> proportions_as_amended (heat_pivot_ferc1 fuel_df) out1)
   \<and> (plant_fuel_proportions_frc_eia923 frc_df id_col = Inr out2 \<and> frc_id id_col = Some ident
      \<and> ''total'' \<notin> set (pcols (heat_pivot_frc ident frc_df))
      \<longrightarrow> proportions_as_amended (heat_pivot_frc ident frc_df) out2)
   \<and> (plant_fuel_proportions_gf_eia923 gf_df = Inr out3
      \<and> ''total'' \<notin> set (pcols (heat_pivot_gf gf_df))
      \<longrightarrow> proportions_as_amended (heat_pivot_gf gf_df) out3)"
proof (intro conjI)
  show "plant_fuel_proportions_ferc1 fuel_df = Inr out1
      \<and> ''total'' \<notin> set (pcols (heat_pivot_ferc1 fuel_df))
      \<longrightarrow> proportions_as_amended (heat_pivot_ferc1 fuel_df) out1"
    unfolding plant_fuel_proportions_ferc1_def heat_pivot_ferc1_def
    by (intro impI proportions_frame_as_amended [where names = "[''report_year'', ''respondent_id'', ''plant_name'']"
          and key_cells = ferc1_key_cells and wt = True])
       (simp_all add: ferc1_key_cells_def)
  show "plant_fuel_proportions_frc_eia923 frc_df id_col = Inr out2 \<and> frc_id id_col = Some ident
      \<and> ''total'' \<notin> set (pcols (heat_pivot_frc ident frc_df))
      \<longrightarrow> proportions_as_amended (heat_pivot_frc ident frc_df) out2"
  proof
    assume a: "plant_fuel_proportions_frc_eia923 frc_df id_col = Inr out2 \<and> frc_id id_col = Some ident
      \<and> ''total'' \<notin> set (pcols (heat_pivot_frc ident frc_df))"
    then have i: "frc_id id_col = Some ident"
      and p: "plant_fuel_proportions_frc_eia923 frc_df id_col = Inr out2"
      by blast+
    from p have "proportions_frame [''year'', id_col] year_id_cells False (heat_pivot_frc ident frc_df)
        = Inr out2"
      by (simp add: plant_fuel_proportions_frc_eia923_def i)
    then show "proportions_as_amended (heat_pivot_frc ident frc_df) out2"
      using a unfolding heat_pivot_frc_def
      by (intro proportions_frame_as_amended [where names = "[''year'', id_col]"
          and key_cells = year_id_cells and wt = False])
         (simp_all add: year_id_cells_def)
  qed
  show "plant_fuel_proportions_gf_eia923 gf_df = Inr out3
      \<and> ''total'' \<notin> set (pcols (heat_pivot_gf gf_df))
      \<longrightarrow> proportions_as_amended (heat_pivot_gf gf_df) out3"
    unfolding plant_fuel_proportions_gf_eia923_def heat_pivot_gf_def
    by (intro impI proportions_frame_as_amended [where names = "[''year'', ''plant_id'']"
          and key_cells = year_id_cells and wt = False])
       (simp_all add: year_id_cells_def)
qed



text \<open>The examples: the pivots of heat content, and the shares of the example of the
  specification, 0.7 of coal and 0.3 of gas.\<close>

lemma heat_pivot_gf_example:
  "heat_pivot_gf gf_example = \<lparr>pcols = [''coal'', ''gas''], prows = [((2015, 42), [Fin 700, Fin 300])]\<rparr>"
  by (simp add: heat_pivot_gf_def gf_example_def groupby_agg_sum_def group_keys_def group_values_def
      sum_skipna_def pivot_table_def mean_skipna_def Let_def)

lemma heat_pivot_gf_example_zero:
  "heat_pivot_gf gf_example_zero = \<lparr>pcols = [''gas''], prows = [((2015, 42), [Fin 0])]\<rparr>"
  by (simp add: heat_pivot_gf_def gf_example_zero_def groupby_agg_sum_def group_keys_def group_values_def
      sum_skipna_def pivot_table_def mean_skipna_def Let_def)

lemma heat_pivot_frc_example:
  "heat_pivot_frc plant_id_eia frc_example
   = \<lparr>pcols = [''coal'', ''gas''], prows = [((2015, 42), [Fin 700, Fin 300])]\<rparr>"
  by (simp add: heat_pivot_frc_def frc_example_def groupby_agg_sum_def group_keys_def group_values_def
      sum_skipna_def pivot_table_def mean_skipna_def Let_def)

lemma heat_pivot_ferc1_example:
  "heat_pivot_ferc1 fuel_ferc1_example
   = \<lparr>pcols = [''coal'', ''gas''], prows = [((2015, 9, ''Comanche''), [Fin 700, Fin 300])]\<rparr>"
  by (simp add: heat_pivot_ferc1_def fuel_ferc1_example_def group_keys_def group_values_def
      sum_skipna_def pivot_table_def mean_skipna_def Let_def)

lemma plant_fuel_proportions_gf_example:
  "plant_fuel_proportions_gf_eia923 gf_example
   = Inr \<lparr>columns = [''year'', ''plant_id'', ''coal'', ''gas''],
          rows = [row_of [''year'', ''plant_id'', ''coal'', ''gas'']
                    [CInt 2015, CInt 42, CFlt (Fin (7/10)), CFlt (Fin (3/10))]]\<rparr>"
  by (simp add: plant_fuel_proportions_gf_eia923_def heat_pivot_gf_example proportions_frame_def
      share_columns_def fuel_shares_def year_id_cells_def sum_skipna_def fillna0_def)

text \<open>
  Claim C4 as stated fails where it says that the shares are 0: the one share of a
  plant and year whose heat content is zero is 0/0, which is NaN.
\<close>

theorem plant_fuel_proportions_zero_counterexample:
  "plant_fuel_proportions_gf_eia923 gf_example_zero
   = Inr \<lparr>columns = [''year'', ''plant_id'', ''gas''],
          rows = [row_of [''year'', ''plant_id'', ''gas''] [CInt 2015, CInt 42, CFlt NaN]]\<rparr>
   \<and> row_of [''year'', ''plant_id'', ''gas''] [CInt 2015, CInt 42, CFlt NaN] ''gas'' \<noteq> CFlt (Fin 0)"
proof
  show "plant_fuel_proportions_gf_eia923 gf_example_zero
   = Inr \<lparr>columns = [''year'', ''plant_id'', ''gas''],
          rows = [row_of [''year'', ''plant_id'', ''gas''] [CInt 2015, CInt 42, CFlt NaN]]\<rparr>"
    by (simp add: plant_fuel_proportions_gf_eia923_def heat_pivot_gf_example_zero proportions_frame_def
      share_columns_def fuel_shares_def year_id_cells_def sum_skipna_def fillna0_def)
  show "row_of [''year'', ''plant_id'', ''gas''] [CInt 2015, CInt 42, CFlt NaN] ''gas'' \<noteq> CFlt (Fin 0)"
    by (simp add: row_of_def)
qed

lemma plant_fuel_proportions_frc_example:
  "\<exists>out. plant_fuel_proportions_frc_eia923 frc_example ''plant_id_eia'' = Inr out"
  by (simp add: plant_fuel_proportions_frc_eia923_def frc_id_def heat_pivot_frc_example proportions_frame_def
      share_columns_def)

lemma plant_fuel_proportions_ferc1_example:
  "\<exists>out. plant_fuel_proportions_ferc1 fuel_ferc1_example = Inr out"
  by (simp add: plant_fuel_proportions_ferc1_def heat_pivot_ferc1_example proportions_frame_def
      share_columns_def)

text \<open>The hypotheses of C4 hold for the three examples.\<close>

theorem plant_fuel_proportions_shares_witness:
  "\<exists>out1 out2 out3.
     (plant_fuel_proportions_ferc1 fuel_ferc1_example = Inr out1
      \<and> ''total'' \<notin> set (pcols (heat_pivot_ferc1 fuel_ferc1_example)))
     \<and> proportions_as_amended (heat_pivot_ferc1 fuel_ferc1_example) out1
     \<and> (plant_fuel_proportions_frc_eia923 frc_example ''plant_id_eia'' = Inr out2
        \<and> frc_id ''plant_id_eia'' = Some plant_id_eia
        \<and> ''total'' \<notin> set (pcols (heat_pivot_frc plant_id_eia frc_example)))
     \<and> proportions_as_amended (heat_pivot_frc plant_id_eia frc_example) out2
     \<and> (plant_fuel_proportions_gf_eia923 gf_example = Inr out3
        \<and> ''total'' \<notin> set (pcols (heat_pivot_gf gf_example)))
     \<and> proportions_as_amended (heat_pivot_gf gf_example) out3"
proof -
  obtain out1 where o1: "plant_fuel_proportions_ferc1 fuel_ferc1_example = Inr out1"
    using plant_fuel_proportions_ferc1_example by blast
  obtain out2 where o2: "plant_fuel_proportions_frc_eia923 frc_example ''plant_id_eia'' = Inr out2"
    using plant_fuel_proportions_frc_example by blast
  obtain out3 where o3: "plant_fuel_proportions_gf_eia923 gf_example = Inr out3"
    using plant_fuel_proportions_gf_example by blast
  have h1: "plant_fuel_proportions_ferc1 fuel_ferc1_example = Inr out1
      \<and> ''total'' \<notin> set (pcols (heat_pivot_ferc1 fuel_ferc1_example))"
    using o1 by (simp add: heat_pivot_ferc1_example)
  have h2: "plant_fuel_proportions_frc_eia923 frc_example ''plant_id_eia'' = Inr out2
        \<and> frc_id ''plant_id_eia'' = Some plant_id_eia
        \<and> ''total'' \<notin> set (pcols (heat_pivot_frc plant_id_eia frc_example))"
    using o2 by (simp add: heat_pivot_frc_example frc_id_def)
  have h3: "plant_fuel_proportions_gf_eia923 gf_example = Inr out3
        \<and> ''total'' \<notin> set (pcols (heat_pivot_gf gf_example))"
    using o3 by (simp add: heat_pivot_gf_example)
  note t = plant_fuel_proportions_shares [of fuel_ferc1_example out1 frc_example "''plant_id_eia''" out2
      plant_id_eia gf_example out3]
  note c1 = t [THEN conjunct1, THEN mp, OF h1]
  note c2 = t [THEN conjunct2, THEN conjunct1, THEN mp, OF h2]
  note c3 = t [THEN conjunct2, THEN conjunct2, THEN mp, OF h3]
  show ?thesis
    by (intro exI conjI) (rule h1 [THEN conjunct1] h1 [THEN conjunct2] c1 [THEN conjunct1] c1 [THEN conjunct2]
      h2 [THEN conjunct1] h2 [THEN conjunct2, THEN conjunct1] h2 [THEN conjunct2, THEN conjunct2]
      c2 [THEN conjunct1] c2 [THEN conjunct2]
      h3 [THEN conjunct1] h3 [THEN conjunct2] c3 [THEN conjunct1] c3 [THEN conjunct2])+
qed

text \<open>
  Claim C3 does not hold of \<^verbatim>\<open>primary_fuel_gf_eia923\<close>, which has no output: line 922
  sets the index to \<^verbatim>\<open>id_col\<close> and \<^verbatim>\<open>report_year\<close>, where the frame of
  \<^verbatim>\<open>plant_fuel_proportions_gf_eia923\<close> has the columns \<^verbatim>\<open>year\<close> and \<^verbatim>\<open>plant_id\<close>
  (\<^verbatim>\<open>primary_fuel_frc_eia923\<close>, line 852, uses \<^verbatim>\<open>year\<close>).  On the example of the
  specification the call raises KeyError; it raises on every input in which no fuel is
  called \<^verbatim>\<open>report_year\<close>.
\<close>

theorem primary_fuel_gf_eia923_raises:
  "primary_fuel_gf_eia923 gf_example ''plant_id_eia'' (Fin (1/2)) = Inl KeyError"
  by (simp add: primary_fuel_gf_eia923_def plant_fuel_proportions_gf_example set_index_def)

lemma primary_fuel_gf_eia923_never_returns:
  assumes "''report_year'' \<notin> set (pcols (heat_pivot_gf gf_df))"
  shows "\<exists>e. primary_fuel_gf_eia923 gf_df id_col fuel_thresh = Inl e"
proof (cases "plant_fuel_proportions_gf_eia923 gf_df")
  case (Inl e)
  then show ?thesis by (simp add: primary_fuel_gf_eia923_def)
next
  case (Inr gf_by_heat)
  then have "''report_year'' \<notin> set (columns gf_by_heat)"
    using assms
    by (auto simp: plant_fuel_proportions_gf_eia923_def proportions_frame_def share_columns_def
        split: if_splits)
  then have "set_index [id_col, ''report_year''] gf_by_heat = Inl KeyError"
    by (simp add: set_index_def)
  then show ?thesis using Inr by (simp add: primary_fuel_gf_eia923_def)
qed

section \<open>Properties of the primary fuel\<close>

text \<open>Values that are not NaN are linearly ordered.\<close>


lemma fl_ge_not_nan: "fl_ge x y \<Longrightarrow> x \<noteq> NaN \<and> y \<noteq> NaN"
  by (cases x; cases y) (auto simp: fl_ge_def fl_le_def)

lemma nan_low_not_nan [simp]: "nan_low x \<noteq> NaN"
  by (simp add: nan_low_def)

lemma fl_not_lt_trans:
  "x \<noteq> NaN \<Longrightarrow> y \<noteq> NaN \<Longrightarrow> z \<noteq> NaN \<Longrightarrow> \<not> fl_lt x y \<Longrightarrow> \<not> fl_lt y z \<Longrightarrow> \<not> fl_lt x z"
  by (cases x; cases y; cases z) auto

lemma fl_lt_imp_not_lt: "fl_lt x y \<Longrightarrow> \<not> fl_lt y x"
  by (cases x; cases y) auto

lemma fl_not_lt_le: "x \<noteq> NaN \<Longrightarrow> y \<noteq> NaN \<Longrightarrow> \<not> fl_lt x y \<Longrightarrow> fl_le y x"
  by (cases x; cases y) (auto simp: fl_le_def)

lemma fl_lt_le_trans: "fl_lt x y \<Longrightarrow> fl_le y z \<Longrightarrow> fl_le x z"
  by (cases x; cases y; cases z) (auto simp: fl_le_def)

lemma argmax_first_max:
  "argmax_first cvs = Some b \<Longrightarrow>
   b \<in> set cvs \<and> (\<forall>cv \<in> set cvs. \<not> fl_lt (nan_low (snd b)) (nan_low (snd cv)))"
proof (induction cvs arbitrary: b)
  case Nil
  then show ?case by simp
next
  case (Cons cv rest)
  show ?case
  proof (cases "argmax_first rest")
    case None
    then have "rest = []" by (cases rest) (auto split: option.splits if_splits)
    with Cons.prems show ?thesis
      by (cases "nan_low (snd cv)") auto
  next
    case (Some best)
    note ih = Cons.IH [OF Some]
    show ?thesis
    proof (cases "fl_lt (nan_low (snd cv)) (nan_low (snd best))")
      case True
      then have b: "b = best" using Cons.prems Some by simp
      show ?thesis
        unfolding b using ih True by (auto dest: fl_lt_imp_not_lt)
    next
      case False
      then have b: "b = cv" using Cons.prems Some by simp
      have "\<not> fl_lt (nan_low (snd cv)) (nan_low (snd x))" if "x \<in> set rest" for x
        using fl_not_lt_trans [OF nan_low_not_nan nan_low_not_nan nan_low_not_nan False] ih that
        by blast
      moreover have "\<not> fl_lt (nan_low (snd cv)) (nan_low (snd cv))"
        by (cases "nan_low (snd cv)") auto
      ultimately show ?thesis unfolding b by auto
    qed
  qed
qed

lemma argmax_first_Some: "cvs \<noteq> [] \<Longrightarrow> \<exists>b. argmax_first cvs = Some b"
  by (cases cvs) (auto split: option.splits)

lemma idxmax_below:
  assumes "list_all (\<lambda>c. \<not> fl_ge (share c) thresh) cols"
  shows "idxmax (map (\<lambda>c. (c, where_ge thresh (share c))) cols) = None"
  using assms by (simp add: idxmax_def where_ge_def list_all_iff)

lemma idxmax_above:
  assumes "list_ex (\<lambda>c. fl_ge (share c) (Fin t)) cols"
  shows "\<exists>f \<in> set cols. idxmax (map (\<lambda>c. (c, where_ge (Fin t) (share c))) cols) = Some f
           \<and> fl_ge (share f) (Fin t)
           \<and> (\<forall>c \<in> set cols. share c = NaN \<or> fl_le (share c) (share f))"
proof -
  let ?cvs = "map (\<lambda>c. (c, where_ge (Fin t) (share c))) cols"
  obtain c0 where c0: "c0 \<in> set cols" "fl_ge (share c0) (Fin t)"
    using assms by (auto simp: list_ex_iff)
  then have w0: "where_ge (Fin t) (share c0) = share c0" "share c0 \<noteq> NaN"
    by (auto simp: where_ge_def dest: fl_ge_not_nan)
  have "where_ge (Fin t) (share c0) \<noteq> NaN" using w0 by simp
  then have notall: "\<not> list_all (\<lambda>cv. snd cv = NaN) ?cvs"
    using c0(1) by (auto simp: list_all_iff)
  have "?cvs \<noteq> []" using c0(1) by auto
  then obtain b where b: "argmax_first ?cvs = Some b"
    using argmax_first_Some by blast
  note mx = argmax_first_max [OF b]
  from mx obtain f where f: "f \<in> set cols" "b = (f, where_ge (Fin t) (share f))"
    by auto
  have idx: "idxmax ?cvs = Some f"
    using notall b f by (simp add: idxmax_def)
  have ge0: "\<not> fl_lt (nan_low (where_ge (Fin t) (share f))) (share c0)"
    using mx c0(1) w0 f by (force simp: nan_low_def)
  have gef: "fl_ge (share f) (Fin t)"
  proof (rule ccontr)
    assume "\<not> fl_ge (share f) (Fin t)"
    then have "nan_low (where_ge (Fin t) (share f)) = NInf"
      by (simp add: where_ge_def nan_low_def)
    moreover have "fl_lt NInf (share c0)"
      using c0(2) by (cases "share c0") (auto simp: fl_ge_def fl_le_def)
    ultimately show False using ge0 by simp
  qed
  then have wf: "where_ge (Fin t) (share f) = share f" "share f \<noteq> NaN"
    by (auto simp: where_ge_def dest: fl_ge_not_nan)
  have le: "share c = NaN \<or> fl_le (share c) (share f)" if c: "c \<in> set cols" for c
  proof (cases "share c = NaN")
    case True
    then show ?thesis by simp
  next
    case nn: False
    show ?thesis
    proof (cases "fl_ge (share c) (Fin t)")
      case True
      then have "\<not> fl_lt (share f) (share c)"
        using mx c f wf nn by (force simp: nan_low_def where_ge_def)
      then show ?thesis using fl_not_lt_le wf(2) nn by blast
    next
      case False
      then have "fl_lt (share c) (Fin t)"
        using nn by (cases "share c") (auto simp: fl_ge_def fl_le_def)
      moreover have "fl_le (Fin t) (share f)" using gef by (simp add: fl_ge_def)
      ultimately show ?thesis using fl_lt_le_trans by blast
    qed
  qed
  show ?thesis using f(1) idx gef le by blast
qed



lemma primary_fuel_of_spec:
  assumes ok: "primary_fuel_of keys (Fin t) df = Inr out"
  shows "columns out = keys @ [''primary_fuel'']"
    and "length (rows out) = length (rows df)"
    and "i < length (rows df) \<Longrightarrow>
         (\<forall>k. k \<noteq> ''primary_fuel'' \<longrightarrow> (rows out ! i) k = (rows df ! i) k)
         \<and> (list_all (\<lambda>c. \<not> fl_ge (cell_fl ((rows df ! i) c)) (Fin t)) (columns df)
              \<longrightarrow> (rows out ! i) ''primary_fuel'' = CNull)
         \<and> (list_ex (\<lambda>c. fl_ge (cell_fl ((rows df ! i) c)) (Fin t)) (columns df)
              \<longrightarrow> (\<exists>f \<in> set (columns df). (rows out ! i) ''primary_fuel'' = CStr f
                    \<and> fl_ge (cell_fl ((rows df ! i) f)) (Fin t)
                    \<and> (\<forall>c \<in> set (columns df). cell_fl ((rows df ! i) c) = NaN
                          \<or> fl_le (cell_fl ((rows df ! i) c)) (cell_fl ((rows df ! i) f)))))"
proof -
  have out: "out = \<lparr>columns = keys @ [''primary_fuel''],
      rows = map (\<lambda>r. r(''primary_fuel'' := primary_fuel_cell (columns df) (Fin t) r)) (rows df)\<rparr>"
    using ok by (simp add: primary_fuel_of_def split: if_splits)
  show "columns out = keys @ [''primary_fuel'']" by (simp add: out)
  show "length (rows out) = length (rows df)" by (simp add: out)
  assume i: "i < length (rows df)"
  let ?r = "rows df ! i"
  have row: "rows out ! i = ?r(''primary_fuel'' := primary_fuel_cell (columns df) (Fin t) ?r)"
    using i by (simp add: out)
  have a: "\<forall>k. k \<noteq> ''primary_fuel'' \<longrightarrow> (rows out ! i) k = ?r k"
    by (simp add: row)
  have b: "(rows out ! i) ''primary_fuel'' = CNull"
    if "list_all (\<lambda>c. \<not> fl_ge (cell_fl (?r c)) (Fin t)) (columns df)"
    using idxmax_below [OF that] by (simp add: row primary_fuel_cell_def)
  have c: "\<exists>f \<in> set (columns df). (rows out ! i) ''primary_fuel'' = CStr f
                    \<and> fl_ge (cell_fl (?r f)) (Fin t)
                    \<and> (\<forall>c \<in> set (columns df). cell_fl (?r c) = NaN
                          \<or> fl_le (cell_fl (?r c)) (cell_fl (?r f)))"
    if "list_ex (\<lambda>c. fl_ge (cell_fl (?r c)) (Fin t)) (columns df)"
  proof -
    from idxmax_above [OF that] obtain f where f: "f \<in> set (columns df)"
      "idxmax (map (\<lambda>c. (c, where_ge (Fin t) (cell_fl (?r c)))) (columns df)) = Some f"
      "fl_ge (cell_fl (?r f)) (Fin t)"
      "\<forall>c \<in> set (columns df). cell_fl (?r c) = NaN \<or> fl_le (cell_fl (?r c)) (cell_fl (?r f))"
      by blast
    have "(rows out ! i) ''primary_fuel'' = CStr f"
      by (simp add: row primary_fuel_cell_def f(2))
    then show ?thesis using f by blast
  qed
  show "(\<forall>k. k \<noteq> ''primary_fuel'' \<longrightarrow> (rows out ! i) k = (rows df ! i) k)
         \<and> (list_all (\<lambda>c. \<not> fl_ge (cell_fl ((rows df ! i) c)) (Fin t)) (columns df)
              \<longrightarrow> (rows out ! i) ''primary_fuel'' = CNull)
         \<and> (list_ex (\<lambda>c. fl_ge (cell_fl ((rows df ! i) c)) (Fin t)) (columns df)
              \<longrightarrow> (\<exists>f \<in> set (columns df). (rows out ! i) ''primary_fuel'' = CStr f
                    \<and> fl_ge (cell_fl ((rows df ! i) f)) (Fin t)
                    \<and> (\<forall>c \<in> set (columns df). cell_fl ((rows df ! i) c) = NaN
                          \<or> fl_le (cell_fl ((rows df ! i) c)) (cell_fl ((rows df ! i) f)))))"
    using a b c by blast
qed

lemma proportions_frame_columns:
  assumes "proportions_frame names key_cells wt pv = Inr out"
  shows "columns out = names @ share_columns (pcols pv) @ (if wt then [''total_mmbtu''] else [])"
    and "set (share_columns (pcols pv)) \<inter> set names = {}"
    and "wt \<Longrightarrow> ''total_mmbtu'' \<notin> set (share_columns (pcols pv))"
  using assms
  by (auto simp: proportions_frame_def list_ex_iff share_columns_def split: if_splits)



lemma filter_keys_off:
  assumes "set cs \<inter> set ks = {}"
  shows "filter (\<lambda>c. c \<notin> set ks) (ks @ cs @ es) = cs @ filter (\<lambda>c. c \<notin> set ks) es"
proof -
  have "filter (\<lambda>c. c \<notin> set ks) ks = []" by (simp add: filter_empty_conv)
  moreover have "filter (\<lambda>c. c \<notin> set ks) cs = cs"
    using assms by (auto simp: filter_id_conv)
  ultimately show ?thesis by simp
qed

text \<open>
  The part of claim C3 that holds, for \<^verbatim>\<open>primary_fuel_ferc1\<close>.  When the function
  returns, with a threshold that is a number, each plant and year of the frame of
  shares has a row in the result, whose \<^verbatim>\<open>primary_fuel\<close> is missing when no share is at
  or above the threshold, and otherwise is a fuel whose share is the greatest of the
  row and at or above the threshold.
\<close>

theorem primary_fuel_ferc1_threshold:
  assumes ok: "primary_fuel_ferc1 fuel_df (Fin t) = Inr out"
  shows "\<exists>shares. plant_fuel_proportions_ferc1 fuel_df = Inr shares
     \<and> columns out = [''report_year'', ''respondent_id'', ''plant_name'', ''primary_fuel'']
     \<and> primary_fuel_as_claimed t (share_columns (pcols (heat_pivot_ferc1 fuel_df))) shares out"
proof -
  let ?keys = "[''report_year'', ''respondent_id'', ''plant_name'']"
  let ?fuels = "share_columns (pcols (heat_pivot_ferc1 fuel_df))"
  from ok obtain shares where sh: "plant_fuel_proportions_ferc1 fuel_df = Inr shares"
    by (auto simp: primary_fuel_ferc1_def split: sum.splits)
  note pc = proportions_frame_columns [OF sh [unfolded plant_fuel_proportions_ferc1_def]]
  have cols: "columns shares = ?keys @ ?fuels @ [''total_mmbtu'']"
    using pc(1) by simp
  have si: "set_index ?keys shares
      = Inr \<lparr>columns = ?fuels @ [''total_mmbtu''], rows = rows shares\<rparr>"
  proof -
    have "filter (\<lambda>c. c \<notin> set ?keys) (columns shares) = ?fuels @ [''total_mmbtu'']"
      unfolding cols using filter_keys_off [OF pc(2), of "[''total_mmbtu'']"] by simp
    then show ?thesis by (simp add: set_index_def cols)
  qed
  have dc: "drop_columns [''total_mmbtu''] \<lparr>columns = ?fuels @ [''total_mmbtu''], rows = rows shares\<rparr>
      = Inr \<lparr>columns = ?fuels, rows = rows shares\<rparr>"
  proof -
    have "filter (\<lambda>c. c \<noteq> ''total_mmbtu'') ?fuels = ?fuels"
      using pc(3) by (auto simp: filter_id_conv)
    then show ?thesis by (simp add: drop_columns_def)
  qed
  have pf: "primary_fuel_of ?keys (Fin t) \<lparr>columns = ?fuels, rows = rows shares\<rparr> = Inr out"
    using ok by (simp add: primary_fuel_ferc1_def sh si dc)
  note sp = primary_fuel_of_spec [OF pf, simplified]
  show ?thesis
    using sh sp by auto
qed

text \<open>The same for \<^verbatim>\<open>primary_fuel_frc_eia923\<close>, with its default \<^verbatim>\<open>id_col\<close>.\<close>

theorem primary_fuel_frc_eia923_threshold:
  assumes ok: "primary_fuel_frc_eia923 frc_df ''plant_id_eia'' (Fin t) = Inr out"
  shows "\<exists>shares. plant_fuel_proportions_frc_eia923 frc_df ''plant_id_eia'' = Inr shares
     \<and> columns out = [''plant_id_eia'', ''year'', ''primary_fuel'']
     \<and> primary_fuel_as_claimed t (share_columns (pcols (heat_pivot_frc plant_id_eia frc_df))) shares out"
proof -
  let ?fuels = "share_columns (pcols (heat_pivot_frc plant_id_eia frc_df))"
  from ok obtain shares where sh: "plant_fuel_proportions_frc_eia923 frc_df ''plant_id_eia'' = Inr shares"
    by (auto simp: primary_fuel_frc_eia923_def split: sum.splits)
  then have pfr: "proportions_frame [''year'', ''plant_id_eia''] year_id_cells False
      (heat_pivot_frc plant_id_eia frc_df) = Inr shares"
    by (simp add: plant_fuel_proportions_frc_eia923_def frc_id_def)
  note pc = proportions_frame_columns [OF pfr]
  have cols: "columns shares = [''year'', ''plant_id_eia''] @ ?fuels @ []"
    using pc(1) by simp
  have si: "set_index [''plant_id_eia'', ''year''] shares = Inr \<lparr>columns = ?fuels, rows = rows shares\<rparr>"
  proof -
    have "filter (\<lambda>c. c \<notin> set [''year'', ''plant_id_eia'']) (columns shares) = ?fuels"
      unfolding cols using filter_keys_off [OF pc(2), of "[]"] by simp
    moreover have "set [''plant_id_eia'', ''year''] = set [''year'', ''plant_id_eia'']" by auto
    ultimately have "filter (\<lambda>c. c \<notin> set [''plant_id_eia'', ''year'']) (columns shares) = ?fuels"
      by simp
    then show ?thesis by (simp add: set_index_def cols)
  qed
  have pf: "primary_fuel_of [''plant_id_eia'', ''year''] (Fin t) \<lparr>columns = ?fuels, rows = rows shares\<rparr>
      = Inr out"
    using ok by (simp add: primary_fuel_frc_eia923_def sh si)
  note sp = primary_fuel_of_spec [OF pf, simplified]
  show ?thesis
    using sh sp by auto
qed


text \<open>The examples: shares of 0.7 of coal and 0.3 of gas, and the primary fuel coal.\<close>

lemma plant_fuel_proportions_ferc1_example_value:
  "plant_fuel_proportions_ferc1 fuel_ferc1_example
   = Inr \<lparr>columns = [''report_year'', ''respondent_id'', ''plant_name'', ''coal'', ''gas'', ''total_mmbtu''],
          rows = [row_of [''report_year'', ''respondent_id'', ''plant_name'', ''coal'', ''gas'', ''total_mmbtu'']
                    [CInt 2015, CInt 9, CStr ''Comanche'', CFlt (Fin (7/10)), CFlt (Fin (3/10)),
                     CFlt (Fin 1000)]]\<rparr>"
  by (simp add: plant_fuel_proportions_ferc1_def heat_pivot_ferc1_example proportions_frame_def
      share_columns_def fuel_shares_def ferc1_key_cells_def sum_skipna_def fillna0_def)

lemma plant_fuel_proportions_frc_example_value:
  "plant_fuel_proportions_frc_eia923 frc_example ''plant_id_eia''
   = Inr \<lparr>columns = [''year'', ''plant_id_eia'', ''coal'', ''gas''],
          rows = [row_of [''year'', ''plant_id_eia'', ''coal'', ''gas'']
                    [CInt 2015, CInt 42, CFlt (Fin (7/10)), CFlt (Fin (3/10))]]\<rparr>"
  by (simp add: plant_fuel_proportions_frc_eia923_def frc_id_def heat_pivot_frc_example proportions_frame_def
      share_columns_def fuel_shares_def year_id_cells_def sum_skipna_def fillna0_def)

lemma primary_fuel_ferc1_example:
  "(case primary_fuel_ferc1 fuel_ferc1_example (Fin (1/2)) of
      Inr out \<Rightarrow> columns out = [''report_year'', ''respondent_id'', ''plant_name'', ''primary_fuel'']
        \<and> map (\<lambda>r. map r (columns out)) (rows out) = [[CInt 2015, CInt 9, CStr ''Comanche'', CStr ''coal'']]
    | Inl e \<Rightarrow> False)"
  by (simp add: primary_fuel_ferc1_def plant_fuel_proportions_ferc1_example_value set_index_def
      drop_columns_def primary_fuel_of_def row_of_Cons row_of_Nil null_row_def primary_fuel_cell_def
      idxmax_def where_ge_def nan_low_def fl_ge_def fl_le_def)

lemma primary_fuel_frc_example:
  "(case primary_fuel_frc_eia923 frc_example ''plant_id_eia'' (Fin (1/2)) of
      Inr out \<Rightarrow> columns out = [''plant_id_eia'', ''year'', ''primary_fuel'']
        \<and> map (\<lambda>r. map r (columns out)) (rows out) = [[CInt 42, CInt 2015, CStr ''coal'']]
    | Inl e \<Rightarrow> False)"
  by (simp add: primary_fuel_frc_eia923_def plant_fuel_proportions_frc_example_value set_index_def
      primary_fuel_of_def row_of_Cons row_of_Nil null_row_def primary_fuel_cell_def
      idxmax_def where_ge_def nan_low_def fl_ge_def fl_le_def)

text \<open>The hypothesis of each of the two theorems holds for its example.\<close>

theorem primary_fuel_ferc1_threshold_witness:
  "\<exists>out. primary_fuel_ferc1 fuel_ferc1_example (Fin (1/2)) = Inr out
     \<and> (\<exists>shares. plant_fuel_proportions_ferc1 fuel_ferc1_example = Inr shares
     \<and> columns out = [''report_year'', ''respondent_id'', ''plant_name'', ''primary_fuel'']
     \<and> primary_fuel_as_claimed (1/2) (share_columns (pcols (heat_pivot_ferc1 fuel_ferc1_example))) shares out)"
proof -
  obtain out where h: "primary_fuel_ferc1 fuel_ferc1_example (Fin (1/2)) = Inr out"
    using primary_fuel_ferc1_example by (cases "primary_fuel_ferc1 fuel_ferc1_example (Fin (1/2))") auto
  note c = primary_fuel_ferc1_threshold [OF h]
  show ?thesis
    by (rule exI [where x = out], rule conjI, rule h, rule c)
qed

theorem primary_fuel_frc_eia923_threshold_witness:
  "\<exists>out. primary_fuel_frc_eia923 frc_example ''plant_id_eia'' (Fin (1/2)) = Inr out
     \<and> (\<exists>shares. plant_fuel_proportions_frc_eia923 frc_example ''plant_id_eia'' = Inr shares
     \<and> columns out = [''plant_id_eia'', ''year'', ''primary_fuel'']
     \<and> primary_fuel_as_claimed (1/2) (share_columns (pcols (heat_pivot_frc plant_id_eia frc_example))) shares out)"
proof -
  obtain out where h: "primary_fuel_frc_eia923 frc_example ''plant_id_eia'' (Fin (1/2)) = Inr out"
    using primary_fuel_frc_example
    by (cases "primary_fuel_frc_eia923 frc_example ''plant_id_eia'' (Fin (1/2))") auto
  note c = primary_fuel_frc_eia923_threshold [OF h]
  show ?thesis
    by (rule exI [where x = out], rule conjI, rule h, rule c)
qed

section \<open>Properties of \<^verbatim>\<open>fercplants\<close>\<close>


lemma str_title_example: "str_title (str_strip '' comanche '') = ''Comanche''"
  by (simp add: str_title_def str_strip_def whitespace_def lower_letters_def upper_letters_def to_upper_def to_lower_def)

lemma all_example:
  "ferc1_plants_all ferc1_db_example [''f1_steam''] [2015] (Fin 5)
   = [(1, ''Xcel Energy'', ''Comanche'', ''f1_steam''), (2, ''Psco'', ''Cherokee 4'', ''f1_steam'')]"
  by (simp add: ferc1_plants_all_def new_plants_def plant_select_def ferc1_db_example_def fl_ge_def fl_le_def
     str_title_def str_strip_def whitespace_def lower_letters_def upper_letters_def to_upper_def to_lower_def)

lemma fercplants_example:
  "fercplants ferc1_db_example plants_ferc_example [2014, 2015] [''f1_steam''] [2015] True (Fin 5)
   = Inr [(2, ''Psco'', ''Cherokee 4'', ''f1_steam'')]"
  by (simp add: fercplants_def okay_tbls_def all_example plants_ferc_example_def index_difference_def plant_index_def)


lemma set_index_difference: "set (index_difference a b) = set a - set b"
  by (auto simp: index_difference_def)

text \<open>
  Claim C9.  When \<^verbatim>\<open>fercplants\<close> is called with \<^verbatim>\<open>new=True\<close> and returns, its rows are
  the gathered rows whose pair of respondent id and (normalized) plant name is not a
  pair of \<^verbatim>\<open>plants_ferc\<close>: the pairs of the output are the gathered pairs less the
  existing ones, and no pair of the output is an existing one.
\<close>

theorem fercplants_new_is_difference:
  assumes "fercplants db plants_ferc working_years plant_tables years True min_capacity = Inr out"
  shows "set out = {p \<in> set (ferc1_plants_all db plant_tables years min_capacity).
                     plant_index p \<notin> set plants_ferc}
    \<and> set (map plant_index out)
        = set (map plant_index (ferc1_plants_all db plant_tables years min_capacity)) - set plants_ferc
    \<and> list_all (\<lambda>p. plant_index p \<notin> set plants_ferc) out"
proof -
  let ?all = "ferc1_plants_all db plant_tables years min_capacity"
  have out: "out = concat (map (\<lambda>idx. filter (\<lambda>p. plant_index p = idx) ?all)
                     (index_difference (map plant_index ?all) (remdups plants_ferc)))"
    using assms by (simp add: fercplants_def split: if_splits)
  have 1: "set out = {p \<in> set ?all. plant_index p \<notin> set plants_ferc}"
    unfolding out by (auto simp: set_index_difference)
  have 2: "set (map plant_index out) = set (map plant_index ?all) - set plants_ferc"
    using 1 by auto
  have 3: "list_all (\<lambda>p. plant_index p \<notin> set plants_ferc) out"
    using 1 by (auto simp: list_all_iff)
  show ?thesis using 1 2 3 by blast
qed

text \<open>The hypothesis of C9 holds for the example, where one new plant is found.\<close>

theorem fercplants_new_is_difference_witness:
  "fercplants ferc1_db_example plants_ferc_example [2014, 2015] [''f1_steam''] [2015] True (Fin 5)
     = Inr [(2, ''Psco'', ''Cherokee 4'', ''f1_steam'')]
   \<and> set [(2, ''Psco'', ''Cherokee 4'', ''f1_steam'')]
       = {p \<in> set (ferc1_plants_all ferc1_db_example [''f1_steam''] [2015] (Fin 5)).
                     plant_index p \<notin> set plants_ferc_example}
   \<and> set (map plant_index [(2, ''Psco'', ''Cherokee 4'', ''f1_steam'')])
        = set (map plant_index (ferc1_plants_all ferc1_db_example [''f1_steam''] [2015] (Fin 5)))
          - set plants_ferc_example
   \<and> list_all (\<lambda>p. plant_index p \<notin> set plants_ferc_example) [(2, ''Psco'', ''Cherokee 4'', ''f1_steam'')]"
  using fercplants_example fercplants_new_is_difference [OF fercplants_example] by blast

end
